theory Spec2Isabelle
  imports Main "HOL-Library.Word"
begin

unbundle bit_operations_syntax

section \<open>Win32 and WIL vocabulary used by VtIo.cpp\<close>

text \<open>
  Modelled from the spec: the Win32 declarations and the WIL macros that \<open>VtIo.cpp\<close> is
  written against are not among the sources. The spec has a pipe open fail with the
  underlying OS error, a construction failure be caught and converted to an error, and the
  "nothing to do" outcome be a success distinct from the others. Here these are the
  \<open>HRESULT\<close>s of the Windows headers, with their numeric values; \<open>RETURN_LAST_ERROR_IF\<close> and
  \<open>CATCH_RETURN\<close> return failure codes only. Machine integers are words of the width the
  headers give them; a wide string is a list of 16-bit code units and compares by content.
\<close>

type_synonym HRESULT = "32 word"
type_synonym DWORD = "32 word"
type_synonym WORD = "16 word"
type_synonym HANDLE = "64 word"
type_synonym COLORREF = "32 word"
type_synonym wchar_t = "16 word"
type_synonym wstring = "wchar_t list"

definition L :: "string \<Rightarrow> wstring" where
  \<comment> \<open>the wide string literal \<open>L"..."\<close> of an ASCII text\<close>
  "L s = map of_char s"

definition S_OK :: HRESULT where "S_OK = 0"
definition S_FALSE :: HRESULT where "S_FALSE = 1"
definition E_FAIL :: HRESULT where "E_FAIL = 0x80004005"
definition E_INVALIDARG :: HRESULT where "E_INVALIDARG = 0x80070057"
definition E_OUTOFMEMORY :: HRESULT where "E_OUTOFMEMORY = 0x8007000E"

definition ERROR_UNHANDLED_EXCEPTION :: DWORD where "ERROR_UNHANDLED_EXCEPTION = 574"
definition ERROR_ASSERTION_FAILURE :: DWORD where "ERROR_ASSERTION_FAILURE = 668"

definition GENERIC_READ :: DWORD where "GENERIC_READ = 0x80000000"
definition GENERIC_WRITE :: DWORD where "GENERIC_WRITE = 0x40000000"

definition INVALID_HANDLE_VALUE :: HANDLE where "INVALID_HANDLE_VALUE = - 1"

definition SUCCEEDED :: "HRESULT \<Rightarrow> bool" where
  \<comment> \<open>\<open>#define SUCCEEDED(hr) (((HRESULT)(hr)) >= 0)\<close>, an HRESULT being a signed 32-bit LONG\<close>
  "SUCCEEDED hr = (0 \<le> sint hr)"

definition FAILED :: "HRESULT \<Rightarrow> bool" where
  \<comment> \<open>\<open>#define FAILED(hr) (((HRESULT)(hr)) < 0)\<close>\<close>
  "FAILED hr = (sint hr < 0)"

definition HRESULT_FROM_WIN32 :: "DWORD \<Rightarrow> HRESULT" where
  \<comment> \<open>\<open>(HRESULT)(x) <= 0 ? (HRESULT)(x) : (HRESULT)(((x) & 0x0000FFFF) | (FACILITY_WIN32 << 16) | 0x80000000)\<close>\<close>
  "HRESULT_FROM_WIN32 x = (if sint x \<le> 0 then x else (x AND 0x0000FFFF) OR 0x80070000)"

definition GetLastErrorFailHr :: "DWORD \<Rightarrow> HRESULT" where
  \<comment> \<open>what \<open>RETURN_LAST_ERROR_IF\<close> returns when the thread's last error is \<open>err\<close>: WIL replaces
      a last error of 0 by \<open>ERROR_ASSERTION_FAILURE\<close>, so that the macro never returns success\<close>
  "GetLastErrorFailHr err =
     HRESULT_FROM_WIN32 (if err = 0 then ERROR_ASSERTION_FAILURE else err)"

datatype exn = bad_alloc | ResultException HRESULT | std_exception

definition ResultFromCaughtException :: "exn \<Rightarrow> HRESULT" where
  \<comment> \<open>what \<open>CATCH_RETURN()\<close> returns for a caught exception; WIL never lets it be a success code\<close>
  "ResultFromCaughtException x =
     (case x of
        bad_alloc \<Rightarrow> E_OUTOFMEMORY
      | ResultException hr \<Rightarrow>
          (if FAILED hr then hr else HRESULT_FROM_WIN32 ERROR_UNHANDLED_EXCEPTION)
      | std_exception \<Rightarrow> HRESULT_FROM_WIN32 ERROR_UNHANDLED_EXCEPTION)"

section \<open>VtIoModes.hpp\<close>

text \<open>
  Modelled from the spec: \<open>VtIoModes.hpp\<close> is not among the sources. The spec gives the
  enumeration as Invalid, Xterm256, Xterm, WinTelnet, the four enumerators \<open>VtIo.cpp\<close> uses,
  and names the tokens of the four \<open>*_STRING\<close> constants: \<open>"xterm-256color"\<close>, \<open>"xterm"\<close>,
  \<open>"win-telnet"\<close>, and the empty string as the default.
\<close>

datatype VtIoMode = INVALID | XTERM | XTERM_256 | WIN_TELNET

definition XTERM_STRING :: wstring where "XTERM_STRING = L ''xterm''"
definition XTERM_256_STRING :: wstring where "XTERM_256_STRING = L ''xterm-256color''"
definition WIN_TELNET_STRING :: wstring where "WIN_TELNET_STRING = L ''win-telnet''"
definition DEFAULT_STRING :: wstring where "DEFAULT_STRING = L ''''"

section \<open>VtIo::ParseIoMode\<close>

text \<open>
  The out-parameter \<open>ioMode\<close> is the second component of the result: it is written with
  \<open>INVALID\<close> first and keeps that value on the \<open>E_INVALIDARG\<close> path.
\<close>

definition ParseIoMode :: "wstring \<Rightarrow> HRESULT \<times> VtIoMode" where
  "ParseIoMode VtMode =
     (if VtMode = XTERM_256_STRING then (S_OK, XTERM_256)
      else if VtMode = XTERM_STRING then (S_OK, XTERM)
      else if VtMode = WIN_TELNET_STRING then (S_OK, WIN_TELNET)
      else if VtMode = DEFAULT_STRING then (S_OK, XTERM_256)
      else (E_INVALIDARG, INVALID))"

section \<open>The objects VtIo owns and the world it acts on\<close>

text \<open>
  Modelled from the spec: \<open>VtInputThread\<close>, the three render engines and
  \<open>CONSOLE_INFORMATION\<close> are declared outside the sources. Each object owns the pipe handle it
  is constructed from, exclusively, and releases it when it is destroyed; \<open>XtermEngine\<close> and
  \<open>WinTelnetEngine\<close> also take the console's colour table and its size, which
  \<open>CONSOLE_INFORMATION\<close> provides.
\<close>

datatype VtInputThread = VtInputThread HANDLE

datatype RenderEngine =
    Xterm256Engine HANDLE
  | XtermEngine HANDLE "COLORREF list" WORD
  | WinTelnetEngine HANDLE "COLORREF list" WORD

fun thread_handle :: "VtInputThread \<Rightarrow> HANDLE" where
  "thread_handle (VtInputThread h) = h"

fun engine_handle :: "RenderEngine \<Rightarrow> HANDLE" where
  "engine_handle (Xterm256Engine h) = h"
| "engine_handle (XtermEngine h t n) = h"
| "engine_handle (WinTelnetEngine h t n) = h"

record CONSOLE_INFORMATION =
  ColorTable :: "COLORREF list"
  ColorTableSize :: nat

definition GetColorTable :: "CONSOLE_INFORMATION \<Rightarrow> COLORREF list" where
  "GetColorTable gci = ColorTable gci"

definition GetColorTableSize :: "CONSOLE_INFORMATION \<Rightarrow> nat" where
  "GetColorTableSize gci = ColorTableSize gci"

text \<open>Every call that leaves \<open>VtIo.cpp\<close>, in the order it is made.\<close>

datatype call =
    Call_CreateFileW wstring DWORD
  | Call_CloseHandle HANDLE
  | Call_new_VtInputThread HANDLE
  | Call_new_RenderEngine RenderEngine
  | Call_AddRenderEngine "RenderEngine option"
  | Call_Start VtInputThread

record World =
  open_handles :: "HANDLE list"
  trace :: "call list"

text \<open>
  What the operating system, the allocator, the constructors and the renderer answer is
  not decided by \<open>VtIo.cpp\<close>; it is a parameter. \<open>CreateFileW\<close> answers with a handle and
  the thread's last error, the handle being \<open>INVALID_HANDLE_VALUE\<close> exactly when the open
  failed. A constructor or \<open>AddRenderEngine\<close> either completes (\<open>None\<close>) or throws.
\<close>

record Env =
  CreateFileW_result :: "wstring \<Rightarrow> DWORD \<Rightarrow> HANDLE \<times> DWORD"
  VtInputThread_throws :: "HANDLE \<Rightarrow> exn option"
  RenderEngine_throws :: "RenderEngine \<Rightarrow> exn option"
  AddRenderEngine_throws :: "RenderEngine option \<Rightarrow> exn option"

definition log :: "call \<Rightarrow> World \<Rightarrow> World" where
  "log c w = w\<lparr>trace := trace w @ [c]\<rparr>"

definition CreateFileW :: "Env \<Rightarrow> wstring \<Rightarrow> DWORD \<Rightarrow> World \<Rightarrow> (HANDLE \<times> DWORD) \<times> World" where
  "CreateFileW env name access w =
     (case CreateFileW_result env name access of
        (h, err) \<Rightarrow>
          ((h, err),
           (log (Call_CreateFileW name access) w)
             \<lparr>open_handles :=
                (if h = INVALID_HANDLE_VALUE then open_handles w else h # open_handles w)\<rparr>))"

definition CloseHandle :: "HANDLE \<Rightarrow> World \<Rightarrow> World" where
  "CloseHandle h w = (log (Call_CloseHandle h) w)\<lparr>open_handles := remove1 h (open_handles w)\<rparr>"

definition unique_hfile_dtor :: "HANDLE \<Rightarrow> World \<Rightarrow> World" where
  \<comment> \<open>\<open>wil::unique_hfile\<close> closes the handle it holds, unless it holds \<open>INVALID_HANDLE_VALUE\<close>\<close>
  "unique_hfile_dtor h w = (if h = INVALID_HANDLE_VALUE then w else CloseHandle h w)"

section \<open>VtIo\<close>

text \<open>
  Modelled from the spec: the class declaration in \<open>VtIo.hpp\<close> is not among the sources. The
  fields are the four members that \<open>VtIo.cpp\<close> reads and writes: the flag, the resolved mode,
  and the two owning pointers, null (\<open>None\<close>) until an object is stored.
\<close>

record VtIo =
  usingVt :: bool
  IoMode :: VtIoMode
  pVtInputThread :: "VtInputThread option"
  pVtRenderEngine :: "RenderEngine option"

definition VtIo_ctor :: "VtIoMode \<Rightarrow> VtIo" where
  \<comment> \<open>the constructor initialises \<open>_usingVt\<close> only: the two \<open>unique_ptr\<close>s start null and
      \<open>_IoMode\<close> holds whatever value \<open>m0\<close> it happens to\<close>
  "VtIo_ctor m0 =
     \<lparr>usingVt = False, IoMode = m0, pVtInputThread = None, pVtRenderEngine = None\<rparr>"

definition IsUsingVt :: "VtIo \<Rightarrow> bool" where
  "IsUsingVt this = usingVt this"

definition VtIo_inv :: "VtIo \<Rightarrow> bool" where
  \<comment> \<open>what \<open>StartIfNeeded\<close> relies on: an instance that is using VT has both objects\<close>
  "VtIo_inv this =
     (usingVt this \<longrightarrow> pVtInputThread this \<noteq> None \<and> pVtRenderEngine this \<noteq> None)"

section \<open>VtIo::Initialize\<close>

text \<open>
  \<open>std::make_unique\<close> either throws, and then the handle it was given is still released
  on the way out (by the local \<open>unique_hfile\<close>, or by the constructor's own parameter when
  the throw comes after the move: the same single \<open>CloseHandle\<close>), or it yields the new object
  holding the handle. Assigning to a \<open>unique_ptr\<close> member destroys the object it pointed to
  before.
\<close>

definition make_unique_VtInputThread ::
  "Env \<Rightarrow> HANDLE \<Rightarrow> World \<Rightarrow> (exn + VtInputThread) \<times> World" where
  "make_unique_VtInputThread env h w =
     (case VtInputThread_throws env h of
        Some x \<Rightarrow> (Inl x, log (Call_new_VtInputThread h) w)
      | None \<Rightarrow> (Inr (VtInputThread h), log (Call_new_VtInputThread h) w))"

definition make_unique_RenderEngine ::
  "Env \<Rightarrow> RenderEngine \<Rightarrow> World \<Rightarrow> (exn + RenderEngine) \<times> World" where
  "make_unique_RenderEngine env e w =
     (case RenderEngine_throws env e of
        Some x \<Rightarrow> (Inl x, log (Call_new_RenderEngine e) w)
      | None \<Rightarrow> (Inr e, log (Call_new_RenderEngine e) w))"

definition assign_pVtInputThread :: "VtInputThread \<Rightarrow> VtIo \<Rightarrow> World \<Rightarrow> VtIo \<times> World" where
  "assign_pVtInputThread t this w =
     (this\<lparr>pVtInputThread := Some t\<rparr>,
      case pVtInputThread this of
        None \<Rightarrow> w
      | Some old \<Rightarrow> unique_hfile_dtor (thread_handle old) w)"

definition assign_pVtRenderEngine :: "RenderEngine \<Rightarrow> VtIo \<Rightarrow> World \<Rightarrow> VtIo \<times> World" where
  "assign_pVtRenderEngine e this w =
     (this\<lparr>pVtRenderEngine := Some e\<rparr>,
      case pVtRenderEngine this of
        None \<Rightarrow> w
      | Some old \<Rightarrow> unique_hfile_dtor (engine_handle old) w)"

definition scope_exit :: "HANDLE \<Rightarrow> HANDLE \<Rightarrow> World \<Rightarrow> World" where
  \<comment> \<open>leaving \<open>Initialize\<close> destroys its two local \<open>unique_hfile\<close>s, the later declared first\<close>
  "scope_exit hInputFile hOutputFile w =
     unique_hfile_dtor hInputFile (unique_hfile_dtor hOutputFile w)"

text \<open>The \<open>return\<close> statement by which a call of \<open>Initialize\<close> leaves, with the value it returns.\<close>

datatype ret =
    Ret_ParseIoMode HRESULT  \<comment> \<open>\<open>RETURN_IF_FAILED(ParseIoMode(VtMode, _IoMode))\<close>\<close>
  | Ret_InputOpen HRESULT  \<comment> \<open>the first \<open>RETURN_LAST_ERROR_IF\<close>\<close>
  | Ret_OutputOpen HRESULT  \<comment> \<open>the second \<open>RETURN_LAST_ERROR_IF\<close>\<close>
  | Ret_default  \<comment> \<open>\<open>default: return E_FAIL;\<close>\<close>
  | Ret_catch HRESULT  \<comment> \<open>\<open>CATCH_RETURN()\<close>\<close>
  | Ret_end  \<comment> \<open>\<open>return S_OK;\<close>\<close>

fun hresult :: "ret \<Rightarrow> HRESULT" where
  "hresult (Ret_ParseIoMode hr) = hr"
| "hresult (Ret_InputOpen hr) = hr"
| "hresult (Ret_OutputOpen hr) = hr"
| "hresult Ret_default = E_FAIL"
| "hresult (Ret_catch hr) = hr"
| "hresult Ret_end = S_OK"

definition construct_engine ::
  "Env \<Rightarrow> RenderEngine \<Rightarrow> HANDLE \<Rightarrow> VtIo \<Rightarrow> World \<Rightarrow> ret \<times> VtIo \<times> World" where
  \<comment> \<open>one \<open>case\<close> of the switch, \<open>_pVtRenderEngine = std::make_unique<...>(std::move(_hOutputFile), ...)\<close>,
      and what follows it; the input handle has been moved into the input thread by then\<close>
  "construct_engine env e hOutputFile this w =
     (case make_unique_RenderEngine env e w of
        (Inl x, w1) \<Rightarrow>
          (Ret_catch (ResultFromCaughtException x), this,
           scope_exit INVALID_HANDLE_VALUE hOutputFile w1)
      | (Inr e', w1) \<Rightarrow>
          (case assign_pVtRenderEngine e' this w1 of
             (this1, w2) \<Rightarrow>
               (Ret_end, this1\<lparr>usingVt := True\<rparr>,
                scope_exit INVALID_HANDLE_VALUE INVALID_HANDLE_VALUE w2)))"

definition Initialize_ret ::
  "Env \<Rightarrow> CONSOLE_INFORMATION \<Rightarrow> wstring \<Rightarrow> wstring \<Rightarrow> wstring \<Rightarrow> VtIo \<Rightarrow> World
     \<Rightarrow> ret \<times> VtIo \<times> World" where
  "Initialize_ret env gci InPipeName OutPipeName VtMode this0 w0 =
     (case ParseIoMode VtMode of
        (hr, m) \<Rightarrow>
          let this = this0\<lparr>IoMode := m\<rparr> in
          if FAILED hr then (Ret_ParseIoMode hr, this, w0)
          else
            (case CreateFileW env InPipeName GENERIC_READ w0 of
               ((hInputFile, err_in), w1) \<Rightarrow>
                 if hInputFile = INVALID_HANDLE_VALUE
                 then (Ret_InputOpen (GetLastErrorFailHr err_in), this,
                       scope_exit hInputFile INVALID_HANDLE_VALUE w1)
                 else
                   (case CreateFileW env OutPipeName GENERIC_WRITE w1 of
                      ((hOutputFile, err_out), w2) \<Rightarrow>
                        if hOutputFile = INVALID_HANDLE_VALUE
                        then (Ret_OutputOpen (GetLastErrorFailHr err_out), this,
                              scope_exit hInputFile hOutputFile w2)
                        else
                          (case make_unique_VtInputThread env hInputFile w2 of
                             (Inl x, w3) \<Rightarrow>
                               (Ret_catch (ResultFromCaughtException x), this,
                                scope_exit hInputFile hOutputFile w3)
                           | (Inr t, w3) \<Rightarrow>
                               (case assign_pVtInputThread t this w3 of
                                  (this1, w4) \<Rightarrow>
                                    (case IoMode this1 of
                                       XTERM_256 \<Rightarrow>
                                         construct_engine env (Xterm256Engine hOutputFile)
                                           hOutputFile this1 w4
                                     | XTERM \<Rightarrow>
                                         construct_engine env
                                           (XtermEngine hOutputFile (GetColorTable gci)
                                              (word_of_nat (GetColorTableSize gci)))
                                           hOutputFile this1 w4
                                     | WIN_TELNET \<Rightarrow>
                                         construct_engine env
                                           (WinTelnetEngine hOutputFile (GetColorTable gci)
                                              (word_of_nat (GetColorTableSize gci)))
                                           hOutputFile this1 w4
                                     | INVALID \<Rightarrow>
                                         (Ret_default, this1,
                                          scope_exit INVALID_HANDLE_VALUE hOutputFile w4)))))))"

definition Initialize ::
  "Env \<Rightarrow> CONSOLE_INFORMATION \<Rightarrow> wstring \<Rightarrow> wstring \<Rightarrow> wstring \<Rightarrow> VtIo \<Rightarrow> World
     \<Rightarrow> HRESULT \<times> VtIo \<times> World" where
  "Initialize env gci InPipeName OutPipeName VtMode this w =
     (case Initialize_ret env gci InPipeName OutPipeName VtMode this w of
        (r, this', w') \<Rightarrow> (hresult r, this', w'))"

section \<open>VtIo::StartIfNeeded\<close>

text \<open>
  \<open>_pVtInputThread->Start()\<close> dereferences the pointer: on a null pointer the call has no
  defined result, which is \<open>None\<close> here. \<open>AddRenderEngine\<close> is handed the raw engine pointer,
  null or not.
\<close>

definition StartIfNeeded :: "Env \<Rightarrow> VtIo \<Rightarrow> World \<Rightarrow> (HRESULT \<times> VtIo \<times> World) option" where
  "StartIfNeeded env this w =
     (if \<not> IsUsingVt this then Some (S_FALSE, this, w)
      else
        (case AddRenderEngine_throws env (pVtRenderEngine this) of
           Some x \<Rightarrow>
             Some (ResultFromCaughtException x, this,
                   log (Call_AddRenderEngine (pVtRenderEngine this)) w)
         | None \<Rightarrow>
             (case pVtInputThread this of
                None \<Rightarrow> None
              | Some t \<Rightarrow>
                  Some (S_OK, this,
                        log (Call_Start t)
                          (log (Call_AddRenderEngine (pVtRenderEngine this)) w)))))"

section \<open>The engine table of the specification\<close>

text \<open>
  This definition follows the spec's words, not the source: its table of dialects
  (Xterm256 to \<open>Xterm256Engine(outHandle)\<close>, Xterm to \<open>XtermEngine(outHandle, colorTable)\<close>,
  WinTelnet to \<open>WinTelnetEngine(outHandle, colorTable)\<close>, and a construction error for
  Invalid). It is compared below with what the switch in \<open>Initialize\<close> constructs.
\<close>

definition EngineFactory_spec ::
  "VtIoMode \<Rightarrow> HANDLE \<Rightarrow> COLORREF list \<Rightarrow> WORD \<Rightarrow> RenderEngine option" where
  "EngineFactory_spec mode outHandle colorTable n =
     (case mode of
        XTERM_256 \<Rightarrow> Some (Xterm256Engine outHandle)
      | XTERM \<Rightarrow> Some (XtermEngine outHandle colorTable n)
      | WIN_TELNET \<Rightarrow> Some (WinTelnetEngine outHandle colorTable n)
      | INVALID \<Rightarrow> None)"

section \<open>Reading a trace\<close>

fun is_CloseHandle :: "call \<Rightarrow> bool" where
  "is_CloseHandle (Call_CloseHandle h) = True"
| "is_CloseHandle c = False"

definition steps :: "call list \<Rightarrow> call list" where
  \<comment> \<open>the calls of a trace that acquire or construct something: all but the \<open>CloseHandle\<close>s\<close>
  "steps cs = filter (\<lambda>c. \<not> is_CloseHandle c) cs"

section \<open>A host's sequence of calls\<close>

datatype op =
    Op_Initialize Env CONSOLE_INFORMATION wstring wstring wstring
  | Op_StartIfNeeded Env

fun is_Initialize :: "op \<Rightarrow> bool" where
  "is_Initialize (Op_Initialize env gci InPipeName OutPipeName VtMode) = True"
| "is_Initialize (Op_StartIfNeeded env) = False"

fun step :: "op \<Rightarrow> VtIo \<Rightarrow> World \<Rightarrow> (HRESULT \<times> VtIo \<times> World) option" where
  "step (Op_Initialize env gci InPipeName OutPipeName VtMode) this w =
     Some (Initialize env gci InPipeName OutPipeName VtMode this w)"
| "step (Op_StartIfNeeded env) this w = StartIfNeeded env this w"

fun run :: "op list \<Rightarrow> VtIo \<Rightarrow> World \<Rightarrow> (HRESULT list \<times> VtIo \<times> World) option" where
  "run [] this w = Some ([], this, w)"
| "run (c # cs) this w =
     (case step c this w of
        None \<Rightarrow> None
      | Some (hr, this1, w1) \<Rightarrow>
          (case run cs this1 w1 of
             None \<Rightarrow> None
           | Some (hrs, this2, w2) \<Rightarrow> Some (hr # hrs, this2, w2)))"

section \<open>Concrete environments\<close>

text \<open>
  A machine on which the pipes \<open>in\<close> and \<open>out\<close> exist and open as handles 4 and 8, any
  other open failing with \<open>ERROR_FILE_NOT_FOUND\<close>; and variants of it on which one further
  step fails.
\<close>

definition pipes_env :: Env where
  "pipes_env =
     \<lparr>CreateFileW_result =
        (\<lambda>name access.
           if name = L ''in'' \<and> access = GENERIC_READ then (4, 0)
           else if name = L ''out'' \<and> access = GENERIC_WRITE then (8, 0)
           else (INVALID_HANDLE_VALUE, 2)),
      VtInputThread_throws = (\<lambda>h. None),
      RenderEngine_throws = (\<lambda>e. None),
      AddRenderEngine_throws = (\<lambda>e. None)\<rparr>"

definition engine_fails_env :: Env where
  "engine_fails_env = pipes_env\<lparr>RenderEngine_throws := (\<lambda>e. Some bad_alloc)\<rparr>"

definition engine_fails_again_env :: Env where
  \<comment> \<open>a later attempt: the pipes open as handles 12 and 16, and the engine's constructor throws again\<close>
  "engine_fails_again_env =
     \<lparr>CreateFileW_result =
        (\<lambda>name access.
           if name = L ''in'' \<and> access = GENERIC_READ then (12, 0)
           else if name = L ''out'' \<and> access = GENERIC_WRITE then (16, 0)
           else (INVALID_HANDLE_VALUE, 2)),
      VtInputThread_throws = (\<lambda>h. None),
      RenderEngine_throws = (\<lambda>e. Some bad_alloc),
      AddRenderEngine_throws = (\<lambda>e. None)\<rparr>"

definition renderer_fails_env :: Env where
  "renderer_fails_env = pipes_env\<lparr>AddRenderEngine_throws := (\<lambda>e. Some bad_alloc)\<rparr>"

definition two_colours :: CONSOLE_INFORMATION where
  "two_colours = \<lparr>ColorTable = [0, 0x00FFFFFF], ColorTableSize = 2\<rparr>"

definition quiet_world :: World where
  "quiet_world = \<lparr>open_handles = [], trace = []\<rparr>"

section \<open>Facts about HRESULTs and tokens\<close>

lemma SUCCEEDED_iff_not_FAILED: "SUCCEEDED hr \<longleftrightarrow> \<not> FAILED hr"
  by (simp add: SUCCEEDED_def FAILED_def not_less)

lemma HRESULT_consts:
  "SUCCEEDED S_OK" "SUCCEEDED S_FALSE" "FAILED E_FAIL" "FAILED E_INVALIDARG" "FAILED E_OUTOFMEMORY"
  "S_FALSE \<noteq> S_OK" "\<not> FAILED S_OK" "\<not> FAILED S_FALSE" "E_INVALIDARG \<noteq> S_OK"
  by (simp_all add: SUCCEEDED_def FAILED_def S_OK_def S_FALSE_def E_FAIL_def E_INVALIDARG_def
      E_OUTOFMEMORY_def)

lemma FAILED_not_S_OK: "FAILED hr \<Longrightarrow> hr \<noteq> S_OK"
  by (auto simp: FAILED_def S_OK_def)

lemma sint_neg_iff_bit31: "sint (x :: 32 word) < 0 \<longleftrightarrow> bit x 31"
  using bit_last_iff [of x] by simp

lemma FAILED_HRESULT_FROM_WIN32: "x \<noteq> 0 \<Longrightarrow> FAILED (HRESULT_FROM_WIN32 x)"
proof (cases "sint x \<le> 0")
  case True
  assume "x \<noteq> 0"
  then have "sint x \<noteq> 0" by (simp add: signed_eq_0_iff)
  with True show ?thesis by (simp add: FAILED_def HRESULT_FROM_WIN32_def)
next
  case False
  have "bit ((x AND 0x0000FFFF) OR (0x80070000 :: 32 word)) 31"
    by (simp add: bit_or_iff)
  with False show ?thesis
    by (simp add: FAILED_def HRESULT_FROM_WIN32_def sint_neg_iff_bit31)
qed

lemma FAILED_GetLastErrorFailHr: "FAILED (GetLastErrorFailHr err)"
  unfolding GetLastErrorFailHr_def
  by (rule FAILED_HRESULT_FROM_WIN32) (simp add: ERROR_ASSERTION_FAILURE_def)

lemma FAILED_ResultFromCaughtException: "FAILED (ResultFromCaughtException x)"
  by (cases x)
    (simp_all add: ResultFromCaughtException_def HRESULT_consts FAILED_HRESULT_FROM_WIN32
      ERROR_UNHANDLED_EXCEPTION_def)

lemma tokens_distinct:
  "XTERM_STRING \<noteq> XTERM_256_STRING" "XTERM_STRING \<noteq> WIN_TELNET_STRING"
  "XTERM_STRING \<noteq> DEFAULT_STRING" "XTERM_256_STRING \<noteq> WIN_TELNET_STRING"
  "XTERM_256_STRING \<noteq> DEFAULT_STRING" "WIN_TELNET_STRING \<noteq> DEFAULT_STRING"
  by (simp_all add: XTERM_STRING_def XTERM_256_STRING_def WIN_TELNET_STRING_def
      DEFAULT_STRING_def L_def)

section \<open>The paths through Initialize\<close>

lemmas Initialize_defs =
  Initialize_ret_def construct_engine_def make_unique_VtInputThread_def
  make_unique_RenderEngine_def assign_pVtInputThread_def assign_pVtRenderEngine_def
  CreateFileW_def scope_exit_def unique_hfile_dtor_def CloseHandle_def log_def

lemma ParseIoMode_cases:
  "ParseIoMode VtMode = (E_INVALIDARG, INVALID) \<or>
   (fst (ParseIoMode VtMode) = S_OK \<and> snd (ParseIoMode VtMode) \<in> {XTERM_256, XTERM, WIN_TELNET})"
  by (simp add: ParseIoMode_def)

lemma path_parse:
  assumes "ParseIoMode VtMode = (E_INVALIDARG, INVALID)"
  shows "Initialize_ret env gci InPipeName OutPipeName VtMode this w =
         (Ret_ParseIoMode E_INVALIDARG, this\<lparr>IoMode := INVALID\<rparr>, w)"
  using assms by (simp add: Initialize_ret_def HRESULT_consts)

lemma path_input:
  assumes "fst (ParseIoMode VtMode) = S_OK"
    and "CreateFileW_result env InPipeName GENERIC_READ = (INVALID_HANDLE_VALUE, errIn)"
  shows "Initialize_ret env gci InPipeName OutPipeName VtMode this w =
         (Ret_InputOpen (GetLastErrorFailHr errIn), this\<lparr>IoMode := snd (ParseIoMode VtMode)\<rparr>,
          w\<lparr>trace := trace w @ [Call_CreateFileW InPipeName GENERIC_READ]\<rparr>)"
  using assms by (cases "ParseIoMode VtMode") (simp add: Initialize_defs HRESULT_consts)

lemma path_output:
  assumes "fst (ParseIoMode VtMode) = S_OK"
    and "CreateFileW_result env InPipeName GENERIC_READ = (hIn, errIn)"
    and "hIn \<noteq> INVALID_HANDLE_VALUE"
    and "CreateFileW_result env OutPipeName GENERIC_WRITE = (INVALID_HANDLE_VALUE, errOut)"
  shows "Initialize_ret env gci InPipeName OutPipeName VtMode this w =
         (Ret_OutputOpen (GetLastErrorFailHr errOut), this\<lparr>IoMode := snd (ParseIoMode VtMode)\<rparr>,
          w\<lparr>trace := trace w @ [Call_CreateFileW InPipeName GENERIC_READ,
                Call_CreateFileW OutPipeName GENERIC_WRITE, Call_CloseHandle hIn]\<rparr>)"
  using assms by (cases "ParseIoMode VtMode") (simp add: Initialize_defs HRESULT_consts)

lemma path_thread:
  assumes "fst (ParseIoMode VtMode) = S_OK"
    and "CreateFileW_result env InPipeName GENERIC_READ = (hIn, errIn)"
    and "hIn \<noteq> INVALID_HANDLE_VALUE"
    and "CreateFileW_result env OutPipeName GENERIC_WRITE = (hOut, errOut)"
    and "hOut \<noteq> INVALID_HANDLE_VALUE"
    and "VtInputThread_throws env hIn = Some x"
  shows "Initialize_ret env gci InPipeName OutPipeName VtMode this w =
         (Ret_catch (ResultFromCaughtException x), this\<lparr>IoMode := snd (ParseIoMode VtMode)\<rparr>,
          w\<lparr>trace := trace w @ [Call_CreateFileW InPipeName GENERIC_READ,
                Call_CreateFileW OutPipeName GENERIC_WRITE, Call_new_VtInputThread hIn,
                Call_CloseHandle hOut, Call_CloseHandle hIn]\<rparr>)"
  using assms by (cases "ParseIoMode VtMode") (simp add: Initialize_defs HRESULT_consts)

lemma steps_simps [simp]:
  "steps [] = []" "steps (cs @ ds) = steps cs @ steps ds"
  "steps (c # cs) = (if is_CloseHandle c then steps cs else c # steps cs)"
  by (simp_all add: steps_def)

lemma dtor_invalid [simp]: "unique_hfile_dtor INVALID_HANDLE_VALUE w = w"
  by (simp add: unique_hfile_dtor_def)

lemma path_engine:
  assumes "fst (ParseIoMode VtMode) = S_OK"
    and "CreateFileW_result env InPipeName GENERIC_READ = (hIn, errIn)"
    and "hIn \<noteq> INVALID_HANDLE_VALUE"
    and "CreateFileW_result env OutPipeName GENERIC_WRITE = (hOut, errOut)"
    and "hOut \<noteq> INVALID_HANDLE_VALUE"
    and "VtInputThread_throws env hIn = None"
    and "EngineFactory_spec (snd (ParseIoMode VtMode)) hOut (GetColorTable gci)
           (word_of_nat (GetColorTableSize gci)) = Some e"
    and "RenderEngine_throws env e = Some x"
  shows "Initialize_ret env gci InPipeName OutPipeName VtMode this w =
         (Ret_catch (ResultFromCaughtException x),
          this\<lparr>IoMode := snd (ParseIoMode VtMode), pVtInputThread := Some (VtInputThread hIn)\<rparr>,
          unique_hfile_dtor hOut (log (Call_new_RenderEngine e)
            (snd (assign_pVtInputThread (VtInputThread hIn) this
               (w\<lparr>open_handles := hOut # hIn # open_handles w,
                   trace := trace w @ [Call_CreateFileW InPipeName GENERIC_READ,
                     Call_CreateFileW OutPipeName GENERIC_WRITE, Call_new_VtInputThread hIn]\<rparr>)))))"
  using assms 
  by (cases "ParseIoMode VtMode"; cases "snd (ParseIoMode VtMode)"; cases w; cases "pVtInputThread this")
     (simp_all add: Initialize_ret_def construct_engine_def make_unique_VtInputThread_def
  make_unique_RenderEngine_def assign_pVtInputThread_def 
  CreateFileW_def scope_exit_def HRESULT_consts EngineFactory_spec_def log_def)

lemma path_ok:
  assumes "fst (ParseIoMode VtMode) = S_OK"
    and "CreateFileW_result env InPipeName GENERIC_READ = (hIn, errIn)"
    and "hIn \<noteq> INVALID_HANDLE_VALUE"
    and "CreateFileW_result env OutPipeName GENERIC_WRITE = (hOut, errOut)"
    and "hOut \<noteq> INVALID_HANDLE_VALUE"
    and "VtInputThread_throws env hIn = None"
    and "EngineFactory_spec (snd (ParseIoMode VtMode)) hOut (GetColorTable gci)
           (word_of_nat (GetColorTableSize gci)) = Some e"
    and "RenderEngine_throws env e = None"
  shows "Initialize_ret env gci InPipeName OutPipeName VtMode this w =
         (Ret_end,
          this\<lparr>IoMode := snd (ParseIoMode VtMode), pVtInputThread := Some (VtInputThread hIn),
                pVtRenderEngine := Some e, usingVt := True\<rparr>,
          snd (assign_pVtRenderEngine e this (log (Call_new_RenderEngine e)
            (snd (assign_pVtInputThread (VtInputThread hIn) this
               (w\<lparr>open_handles := hOut # hIn # open_handles w,
                   trace := trace w @ [Call_CreateFileW InPipeName GENERIC_READ,
                     Call_CreateFileW OutPipeName GENERIC_WRITE, Call_new_VtInputThread hIn]\<rparr>))))))"
  using assms 
  by (cases "ParseIoMode VtMode"; cases "snd (ParseIoMode VtMode)"; cases w; cases "pVtInputThread this";
      cases "pVtRenderEngine this")
     (simp_all add: Initialize_ret_def construct_engine_def make_unique_VtInputThread_def
  make_unique_RenderEngine_def assign_pVtInputThread_def assign_pVtRenderEngine_def
  CreateFileW_def scope_exit_def HRESULT_consts EngineFactory_spec_def log_def)

lemma Initialize_ret_cases [consumes 2, case_names at_parse at_input at_output at_thread at_engine at_ok]:
  assumes "CreateFileW_result env InPipeName GENERIC_READ = (hIn, errIn)"
    and "CreateFileW_result env OutPipeName GENERIC_WRITE = (hOut, errOut)"
  obtains
    (at_parse) "ParseIoMode VtMode = (E_INVALIDARG, INVALID)"
  | (at_input) "fst (ParseIoMode VtMode) = S_OK" "hIn = INVALID_HANDLE_VALUE"
  | (at_output) "fst (ParseIoMode VtMode) = S_OK" "hIn \<noteq> INVALID_HANDLE_VALUE"
      "hOut = INVALID_HANDLE_VALUE"
  | (at_thread) x where "fst (ParseIoMode VtMode) = S_OK" "hIn \<noteq> INVALID_HANDLE_VALUE"
      "hOut \<noteq> INVALID_HANDLE_VALUE" "VtInputThread_throws env hIn = Some x"
  | (at_engine) e x where "fst (ParseIoMode VtMode) = S_OK" "hIn \<noteq> INVALID_HANDLE_VALUE"
      "hOut \<noteq> INVALID_HANDLE_VALUE" "VtInputThread_throws env hIn = None"
      "EngineFactory_spec (snd (ParseIoMode VtMode)) hOut (GetColorTable gci)
           (word_of_nat (GetColorTableSize gci)) = Some e"
      "RenderEngine_throws env e = Some x"
  | (at_ok) e where "fst (ParseIoMode VtMode) = S_OK" "hIn \<noteq> INVALID_HANDLE_VALUE"
      "hOut \<noteq> INVALID_HANDLE_VALUE" "VtInputThread_throws env hIn = None"
      "EngineFactory_spec (snd (ParseIoMode VtMode)) hOut (GetColorTable gci)
           (word_of_nat (GetColorTableSize gci)) = Some e"
      "RenderEngine_throws env e = None"
proof (cases "ParseIoMode VtMode = (E_INVALIDARG, INVALID)")
  case True
  then show ?thesis by (rule at_parse)
next
  case False
  with ParseIoMode_cases [of VtMode]
  have p: "fst (ParseIoMode VtMode) = S_OK" and m: "snd (ParseIoMode VtMode) \<noteq> INVALID"
    by auto
  from m obtain e where e: "EngineFactory_spec (snd (ParseIoMode VtMode)) hOut (GetColorTable gci)
           (word_of_nat (GetColorTableSize gci)) = Some e"
    by (cases "snd (ParseIoMode VtMode)") (simp_all add: EngineFactory_spec_def)
  show ?thesis
  proof (cases "hIn = INVALID_HANDLE_VALUE")
    case True
    with p show ?thesis by (rule at_input)
  next
    case hin: False
    show ?thesis
    proof (cases "hOut = INVALID_HANDLE_VALUE")
      case True
      with p hin show ?thesis by (rule at_output)
    next
      case hout: False
      show ?thesis
      proof (cases "VtInputThread_throws env hIn")
        case (Some x)
        with p hin hout show ?thesis by (rule at_thread)
      next
        case None
        show ?thesis
        proof (cases "RenderEngine_throws env e")
          case (Some x)
          with p hin hout None e show ?thesis by (rule at_engine)
        next
          case n2: None
          with p hin hout None e show ?thesis by (rule at_ok)
        qed
      qed
    qed
  qed
qed

lemma ParseIoMode_invalid_iff:
  "VtMode \<notin> {L '''', L ''xterm-256color'', L ''xterm'', L ''win-telnet''} \<longleftrightarrow>
   ParseIoMode VtMode = (E_INVALIDARG, INVALID)"
  using tokens_distinct HRESULT_consts
  by (auto simp: ParseIoMode_def XTERM_STRING_def XTERM_256_STRING_def WIN_TELNET_STRING_def
        DEFAULT_STRING_def E_INVALIDARG_def S_OK_def)

lemma Initialize_eq:
  "Initialize_ret env gci InPipeName OutPipeName VtMode this w = (r, this', w') \<Longrightarrow>
   Initialize env gci InPipeName OutPipeName VtMode this w = (hresult r, this', w')"
  by (simp add: Initialize_def)

lemma assign_pVtInputThread_world:
  obtains cs where
    "trace (snd (assign_pVtInputThread t this w)) = trace w @ cs" "steps cs = []"
    "pVtInputThread this = None \<longrightarrow>
       cs = [] \<and> open_handles (snd (assign_pVtInputThread t this w)) = open_handles w"
proof (cases "pVtInputThread this")
  case None
  then show ?thesis
    by (intro that [of "[]"]) (simp_all add: assign_pVtInputThread_def)
next
  case (Some old)
  show ?thesis
  proof (cases "thread_handle old = INVALID_HANDLE_VALUE")
    case True
    with Some show ?thesis
      by (intro that [of "[]"]) (simp_all add: assign_pVtInputThread_def)
  next
    case False
    with Some show ?thesis
      by (intro that [of "[Call_CloseHandle (thread_handle old)]"])
        (simp_all add: assign_pVtInputThread_def unique_hfile_dtor_def CloseHandle_def log_def)
  qed
qed

lemma assign_pVtInputThread_exact:
  "trace (snd (assign_pVtInputThread t this w)) =
     trace w @ (case pVtInputThread this of
                  None \<Rightarrow> []
                | Some old \<Rightarrow>
                    if thread_handle old = INVALID_HANDLE_VALUE then []
                    else [Call_CloseHandle (thread_handle old)])"
  "open_handles (snd (assign_pVtInputThread t this w)) =
     (case pVtInputThread this of
        None \<Rightarrow> open_handles w
      | Some old \<Rightarrow>
          if thread_handle old = INVALID_HANDLE_VALUE then open_handles w
          else remove1 (thread_handle old) (open_handles w))"
  by (simp_all add: assign_pVtInputThread_def unique_hfile_dtor_def CloseHandle_def log_def
      split: option.splits)

lemma assign_pVtRenderEngine_world:
  obtains cs where
    "trace (snd (assign_pVtRenderEngine e this w)) = trace w @ cs" "steps cs = []"
    "pVtRenderEngine this = None \<longrightarrow>
       cs = [] \<and> open_handles (snd (assign_pVtRenderEngine e this w)) = open_handles w"
proof (cases "pVtRenderEngine this")
  case None
  then show ?thesis
    by (intro that [of "[]"]) (simp_all add: assign_pVtRenderEngine_def)
next
  case (Some old)
  show ?thesis
  proof (cases "engine_handle old = INVALID_HANDLE_VALUE")
    case True
    with Some show ?thesis
      by (intro that [of "[]"]) (simp_all add: assign_pVtRenderEngine_def)
  next
    case False
    with Some show ?thesis
      by (intro that [of "[Call_CloseHandle (engine_handle old)]"])
        (simp_all add: assign_pVtRenderEngine_def unique_hfile_dtor_def CloseHandle_def log_def)
  qed
qed

lemma Initialize_cases [consumes 3, case_names at_parse at_input at_output at_thread at_engine at_ok]:
  assumes "CreateFileW_result env InPipeName GENERIC_READ = (hIn, errIn)"
    and "CreateFileW_result env OutPipeName GENERIC_WRITE = (hOut, errOut)"
    and "Initialize env gci InPipeName OutPipeName VtMode this w = (hr, this', w')"
  obtains
    (at_parse) "ParseIoMode VtMode = (E_INVALIDARG, INVALID)"
      "hr = E_INVALIDARG" "this' = this\<lparr>IoMode := INVALID\<rparr>" "w' = w"
  | (at_input) "fst (ParseIoMode VtMode) = S_OK" "hIn = INVALID_HANDLE_VALUE"
      "hr = GetLastErrorFailHr errIn" "this' = this\<lparr>IoMode := snd (ParseIoMode VtMode)\<rparr>"
      "w' = w\<lparr>trace := trace w @ [Call_CreateFileW InPipeName GENERIC_READ]\<rparr>"
  | (at_output) "fst (ParseIoMode VtMode) = S_OK" "hIn \<noteq> INVALID_HANDLE_VALUE"
      "hOut = INVALID_HANDLE_VALUE"
      "hr = GetLastErrorFailHr errOut" "this' = this\<lparr>IoMode := snd (ParseIoMode VtMode)\<rparr>"
      "w' = w\<lparr>trace := trace w @ [Call_CreateFileW InPipeName GENERIC_READ,
                Call_CreateFileW OutPipeName GENERIC_WRITE, Call_CloseHandle hIn]\<rparr>"
  | (at_thread) x where "fst (ParseIoMode VtMode) = S_OK" "hIn \<noteq> INVALID_HANDLE_VALUE"
      "hOut \<noteq> INVALID_HANDLE_VALUE" "VtInputThread_throws env hIn = Some x"
      "hr = ResultFromCaughtException x" "this' = this\<lparr>IoMode := snd (ParseIoMode VtMode)\<rparr>"
      "w' = w\<lparr>trace := trace w @ [Call_CreateFileW InPipeName GENERIC_READ,
                Call_CreateFileW OutPipeName GENERIC_WRITE, Call_new_VtInputThread hIn,
                Call_CloseHandle hOut, Call_CloseHandle hIn]\<rparr>"
  | (at_engine) e x cs where "fst (ParseIoMode VtMode) = S_OK" "hIn \<noteq> INVALID_HANDLE_VALUE"
      "hOut \<noteq> INVALID_HANDLE_VALUE" "VtInputThread_throws env hIn = None"
      "EngineFactory_spec (snd (ParseIoMode VtMode)) hOut (GetColorTable gci)
           (word_of_nat (GetColorTableSize gci)) = Some e"
      "RenderEngine_throws env e = Some x"
      "hr = ResultFromCaughtException x"
      "this' = this\<lparr>IoMode := snd (ParseIoMode VtMode),
                      pVtInputThread := Some (VtInputThread hIn)\<rparr>"
      "trace w' = trace w @ [Call_CreateFileW InPipeName GENERIC_READ,
                Call_CreateFileW OutPipeName GENERIC_WRITE, Call_new_VtInputThread hIn] @ cs @
                [Call_new_RenderEngine e, Call_CloseHandle hOut]"
      "steps cs = []"
      "pVtInputThread this = None \<longrightarrow> cs = [] \<and> open_handles w' = hIn # open_handles w"
  | (at_ok) e cs ds where "fst (ParseIoMode VtMode) = S_OK" "hIn \<noteq> INVALID_HANDLE_VALUE"
      "hOut \<noteq> INVALID_HANDLE_VALUE" "VtInputThread_throws env hIn = None"
      "EngineFactory_spec (snd (ParseIoMode VtMode)) hOut (GetColorTable gci)
           (word_of_nat (GetColorTableSize gci)) = Some e"
      "RenderEngine_throws env e = None"
      "hr = S_OK"
      "this' = this\<lparr>IoMode := snd (ParseIoMode VtMode),
                      pVtInputThread := Some (VtInputThread hIn),
                      pVtRenderEngine := Some e, usingVt := True\<rparr>"
      "trace w' = trace w @ [Call_CreateFileW InPipeName GENERIC_READ,
                Call_CreateFileW OutPipeName GENERIC_WRITE, Call_new_VtInputThread hIn] @ cs @
                [Call_new_RenderEngine e] @ ds"
      "steps cs = []" "steps ds = []"
      "pVtInputThread this = None \<longrightarrow> cs = []"
      "pVtInputThread this = None \<and> pVtRenderEngine this = None \<longrightarrow>
         ds = [] \<and> open_handles w' = hOut # hIn # open_handles w"
  using assms(1,2)
proof (cases rule: Initialize_ret_cases [where VtMode = VtMode and gci = gci])
  case at_parse
  from Initialize_eq [OF path_parse [OF at_parse]] assms(3)
  have "hr = E_INVALIDARG" "this' = this\<lparr>IoMode := INVALID\<rparr>" "w' = w" by simp_all
  with at_parse show ?thesis by (rule that(1))
next
  case at_input
  from Initialize_eq [OF path_input [OF at_input(1) assms(1) [unfolded at_input(2)]]] assms(3)
  have "hr = GetLastErrorFailHr errIn" "this' = this\<lparr>IoMode := snd (ParseIoMode VtMode)\<rparr>"
    "w' = w\<lparr>trace := trace w @ [Call_CreateFileW InPipeName GENERIC_READ]\<rparr>" by simp_all
  with at_input show ?thesis by (rule that(2))
next
  case at_output
  from Initialize_eq [OF path_output [OF at_output(1) assms(1) at_output(2)
        assms(2) [unfolded at_output(3)]]] assms(3)
  have "hr = GetLastErrorFailHr errOut" "this' = this\<lparr>IoMode := snd (ParseIoMode VtMode)\<rparr>"
    "w' = w\<lparr>trace := trace w @ [Call_CreateFileW InPipeName GENERIC_READ,
                Call_CreateFileW OutPipeName GENERIC_WRITE, Call_CloseHandle hIn]\<rparr>"
    by simp_all
  with at_output show ?thesis by (rule that(3))
next
  case (at_thread x)
  from Initialize_eq [OF path_thread [OF at_thread(1) assms(1) at_thread(2) assms(2)
        at_thread(3,4)]] assms(3)
  have "hr = ResultFromCaughtException x" "this' = this\<lparr>IoMode := snd (ParseIoMode VtMode)\<rparr>"
    "w' = w\<lparr>trace := trace w @ [Call_CreateFileW InPipeName GENERIC_READ,
                Call_CreateFileW OutPipeName GENERIC_WRITE, Call_new_VtInputThread hIn,
                Call_CloseHandle hOut, Call_CloseHandle hIn]\<rparr>"
    by simp_all
  with at_thread show ?thesis by (rule that(4))
next
  case (at_engine e x)
  let ?w3 = "w\<lparr>open_handles := hOut # hIn # open_handles w,
                trace := trace w @ [Call_CreateFileW InPipeName GENERIC_READ,
                  Call_CreateFileW OutPipeName GENERIC_WRITE, Call_new_VtInputThread hIn]\<rparr>"
  from Initialize_eq [OF path_engine [OF at_engine(1) assms(1) at_engine(2) assms(2)
        at_engine(3-6)]] assms(3)
  have r: "hr = ResultFromCaughtException x"
    "this' = this\<lparr>IoMode := snd (ParseIoMode VtMode),
                    pVtInputThread := Some (VtInputThread hIn)\<rparr>"
    and w': "w' = unique_hfile_dtor hOut (log (Call_new_RenderEngine e)
               (snd (assign_pVtInputThread (VtInputThread hIn) this ?w3)))"
    by simp_all
  obtain cs where cs:
    "trace (snd (assign_pVtInputThread (VtInputThread hIn) this ?w3)) = trace ?w3 @ cs"
    "steps cs = []"
    "pVtInputThread this = None \<longrightarrow>
       cs = [] \<and> open_handles (snd (assign_pVtInputThread (VtInputThread hIn) this ?w3)) =
         open_handles ?w3"
    by (rule assign_pVtInputThread_world)
  have t: "trace w' = trace w @ [Call_CreateFileW InPipeName GENERIC_READ,
                Call_CreateFileW OutPipeName GENERIC_WRITE, Call_new_VtInputThread hIn] @ cs @
                [Call_new_RenderEngine e, Call_CloseHandle hOut]"
    using at_engine(3) cs(1) by (simp add: w' unique_hfile_dtor_def CloseHandle_def log_def)
  have h: "pVtInputThread this = None \<longrightarrow> cs = [] \<and> open_handles w' = hIn # open_handles w"
    using at_engine(3) cs(3) by (simp add: w' unique_hfile_dtor_def CloseHandle_def log_def)
  from at_engine r t cs(2) h show ?thesis by (rule that(5))
next
  case (at_ok e)
  let ?w3 = "w\<lparr>open_handles := hOut # hIn # open_handles w,
                trace := trace w @ [Call_CreateFileW InPipeName GENERIC_READ,
                  Call_CreateFileW OutPipeName GENERIC_WRITE, Call_new_VtInputThread hIn]\<rparr>"
  let ?w4 = "snd (assign_pVtInputThread (VtInputThread hIn) this ?w3)"
  let ?w5 = "log (Call_new_RenderEngine e) ?w4"
  from Initialize_eq [OF path_ok [OF at_ok(1) assms(1) at_ok(2) assms(2) at_ok(3-6)]] assms(3)
  have r: "hr = S_OK"
    "this' = this\<lparr>IoMode := snd (ParseIoMode VtMode),
                    pVtInputThread := Some (VtInputThread hIn),
                    pVtRenderEngine := Some e, usingVt := True\<rparr>"
    and w': "w' = snd (assign_pVtRenderEngine e this ?w5)"
    by simp_all
  obtain cs where cs:
    "trace ?w4 = trace ?w3 @ cs" "steps cs = []"
    "pVtInputThread this = None \<longrightarrow> cs = [] \<and> open_handles ?w4 = open_handles ?w3"
    by (rule assign_pVtInputThread_world)
  obtain ds where ds:
    "trace (snd (assign_pVtRenderEngine e this ?w5)) = trace ?w5 @ ds" "steps ds = []"
    "pVtRenderEngine this = None \<longrightarrow>
       ds = [] \<and> open_handles (snd (assign_pVtRenderEngine e this ?w5)) = open_handles ?w5"
    by (rule assign_pVtRenderEngine_world)
  have t: "trace w' = trace w @ [Call_CreateFileW InPipeName GENERIC_READ,
                Call_CreateFileW OutPipeName GENERIC_WRITE, Call_new_VtInputThread hIn] @ cs @
                [Call_new_RenderEngine e] @ ds"
    using cs(1) ds(1) by (simp add: w' log_def)
  have c: "pVtInputThread this = None \<longrightarrow> cs = []" using cs(3) by simp
  have h: "pVtInputThread this = None \<and> pVtRenderEngine this = None \<longrightarrow>
         ds = [] \<and> open_handles w' = hOut # hIn # open_handles w"
    using cs(3) ds(3) by (simp add: w' log_def)
  from at_ok r t cs(2) ds(2) c h show ?thesis by (rule that(6))
qed

section \<open>Runs on the concrete environments\<close>

lemmas fixture_defs =
  pipes_env_def engine_fails_env_def renderer_fails_env_def two_colours_def quiet_world_def

lemma pipes_open:
  "CreateFileW_result pipes_env (L ''in'') GENERIC_READ = (4, 0)"
  "CreateFileW_result pipes_env (L ''out'') GENERIC_WRITE = (8, 0)"
  "CreateFileW_result pipes_env (L ''nowhere'') GENERIC_READ = (INVALID_HANDLE_VALUE, 2)"
  "CreateFileW_result pipes_env (L ''nowhere'') GENERIC_WRITE = (INVALID_HANDLE_VALUE, 2)"
  "CreateFileW_result engine_fails_env (L ''in'') GENERIC_READ = (4, 0)"
  "CreateFileW_result engine_fails_env (L ''out'') GENERIC_WRITE = (8, 0)"
  "(4 :: HANDLE) \<noteq> INVALID_HANDLE_VALUE" "(8 :: HANDLE) \<noteq> INVALID_HANDLE_VALUE"
  by (simp_all add: fixture_defs L_def GENERIC_READ_def GENERIC_WRITE_def INVALID_HANDLE_VALUE_def)

lemma parse_examples:
  "ParseIoMode (L ''xterm'') = (S_OK, XTERM)"
  "ParseIoMode (L '''') = (S_OK, XTERM_256)"
  "ParseIoMode (L ''bogus'') = (E_INVALIDARG, INVALID)"
  by (simp_all add: ParseIoMode_def XTERM_STRING_def XTERM_256_STRING_def WIN_TELNET_STRING_def
      DEFAULT_STRING_def L_def)

lemma engine_examples:
  "EngineFactory_spec (snd (ParseIoMode (L ''xterm''))) 8 (GetColorTable two_colours)
     (word_of_nat (GetColorTableSize two_colours)) = Some (XtermEngine 8 [0, 0x00FFFFFF] 2)"
  "EngineFactory_spec (snd (ParseIoMode (L ''''))) 8 (GetColorTable two_colours)
     (word_of_nat (GetColorTableSize two_colours)) = Some (Xterm256Engine 8)"
  by (simp_all add: parse_examples EngineFactory_spec_def GetColorTable_def GetColorTableSize_def
      two_colours_def)

lemma throw_examples:
  "VtInputThread_throws engine_fails_env 4 = None"
  "RenderEngine_throws engine_fails_env e = Some bad_alloc"
  "VtInputThread_throws pipes_env 4 = None"
  "RenderEngine_throws pipes_env e = None"
  by (simp_all add: fixture_defs)

lemmas world_defs =
  assign_pVtInputThread_def assign_pVtRenderEngine_def log_def unique_hfile_dtor_def
  CloseHandle_def quiet_world_def VtIo_ctor_def

lemma run_engine_fails:
  "Initialize engine_fails_env two_colours (L ''in'') (L ''out'') (L ''xterm'') (VtIo_ctor INVALID)
     quiet_world =
   (E_OUTOFMEMORY,
    \<lparr>usingVt = False, IoMode = XTERM, pVtInputThread = Some (VtInputThread 4),
      pVtRenderEngine = None\<rparr>,
    \<lparr>open_handles = [4],
      trace = [Call_CreateFileW (L ''in'') GENERIC_READ, Call_CreateFileW (L ''out'') GENERIC_WRITE,
               Call_new_VtInputThread 4, Call_new_RenderEngine (XtermEngine 8 [0, 0x00FFFFFF] 2),
               Call_CloseHandle 8]\<rparr>)"
proof -
  have p: "fst (ParseIoMode (L ''xterm'')) = S_OK" by (simp add: parse_examples)
  show ?thesis
    using Initialize_eq [OF path_engine [OF p pipes_open(5) pipes_open(7) pipes_open(6)
          pipes_open(8) throw_examples(1) engine_examples(1) throw_examples(2),
          of "VtIo_ctor INVALID" quiet_world]]
    by (simp add: parse_examples ResultFromCaughtException_def world_defs pipes_open)
qed

lemma run_bogus:
  "Initialize pipes_env two_colours (L ''in'') (L ''out'') (L ''bogus'')
     \<lparr>usingVt = False, IoMode = XTERM, pVtInputThread = None, pVtRenderEngine = None\<rparr>
     quiet_world =
   (E_INVALIDARG,
    \<lparr>usingVt = False, IoMode = INVALID, pVtInputThread = None, pVtRenderEngine = None\<rparr>,
    quiet_world)"
  using Initialize_eq [OF path_parse [OF parse_examples(3)]] by simp

lemma run_ok:
  "Initialize pipes_env two_colours (L ''in'') (L ''out'') (L '''') (VtIo_ctor INVALID)
     quiet_world =
   (S_OK,
    \<lparr>usingVt = True, IoMode = XTERM_256, pVtInputThread = Some (VtInputThread 4),
      pVtRenderEngine = Some (Xterm256Engine 8)\<rparr>,
    \<lparr>open_handles = [8, 4],
      trace = [Call_CreateFileW (L ''in'') GENERIC_READ, Call_CreateFileW (L ''out'') GENERIC_WRITE,
               Call_new_VtInputThread 4, Call_new_RenderEngine (Xterm256Engine 8)]\<rparr>)"
proof -
  have p: "fst (ParseIoMode (L '''')) = S_OK" by (simp add: parse_examples)
  show ?thesis
    using Initialize_eq [OF path_ok [OF p pipes_open(1) pipes_open(7) pipes_open(2)
          pipes_open(8) throw_examples(3) engine_examples(2) throw_examples(4),
          of "VtIo_ctor INVALID" quiet_world]]
    by (simp add: parse_examples world_defs)
qed

lemma run_missing_in:
  "Initialize pipes_env two_colours (L ''nowhere'') (L ''out'') (L '''') (VtIo_ctor INVALID)
     quiet_world =
   (0x80070002,
    \<lparr>usingVt = False, IoMode = XTERM_256, pVtInputThread = None, pVtRenderEngine = None\<rparr>,
    \<lparr>open_handles = [], trace = [Call_CreateFileW (L ''nowhere'') GENERIC_READ]\<rparr>)"
proof -
  have p: "fst (ParseIoMode (L '''')) = S_OK" by (simp add: parse_examples)
  show ?thesis
    using Initialize_eq [OF path_input [OF p pipes_open(3), of two_colours "L ''out''"
          "VtIo_ctor INVALID" quiet_world]]
    by (simp add: parse_examples world_defs GetLastErrorFailHr_def HRESULT_FROM_WIN32_def)
qed

lemma run_missing_out:
  "Initialize pipes_env two_colours (L ''in'') (L ''nowhere'') (L '''') (VtIo_ctor INVALID)
     quiet_world =
   (0x80070002,
    \<lparr>usingVt = False, IoMode = XTERM_256, pVtInputThread = None, pVtRenderEngine = None\<rparr>,
    \<lparr>open_handles = [],
      trace = [Call_CreateFileW (L ''in'') GENERIC_READ,
               Call_CreateFileW (L ''nowhere'') GENERIC_WRITE, Call_CloseHandle 4]\<rparr>)"
proof -
  have p: "fst (ParseIoMode (L '''')) = S_OK" by (simp add: parse_examples)
  show ?thesis
    using Initialize_eq [OF path_output [OF p pipes_open(1) pipes_open(7) pipes_open(4),
          of two_colours "VtIo_ctor INVALID" quiet_world]]
    by (simp add: parse_examples world_defs GetLastErrorFailHr_def HRESULT_FROM_WIN32_def)
qed

lemma fresh_simps:
  "open_handles quiet_world = []" "trace quiet_world = []"
  "pVtInputThread (VtIo_ctor m0) = None" "pVtRenderEngine (VtIo_ctor m0) = None"
  "usingVt (VtIo_ctor m0) = False" "IoMode (VtIo_ctor m0) = m0"
  by (simp_all add: quiet_world_def VtIo_ctor_def)

lemma S_OK_not_failure:
  "S_OK \<noteq> E_INVALIDARG" "S_OK \<noteq> GetLastErrorFailHr err"
  "S_OK \<noteq> ResultFromCaughtException x"
  using FAILED_not_S_OK [OF HRESULT_consts(4)] FAILED_not_S_OK [OF FAILED_GetLastErrorFailHr [of err]]
    FAILED_not_S_OK [OF FAILED_ResultFromCaughtException [of x]]
  by (simp_all add: eq_commute)

lemma retry_open:
  "CreateFileW_result engine_fails_again_env (L ''in'') GENERIC_READ = (12, 0)"
  "CreateFileW_result engine_fails_again_env (L ''out'') GENERIC_WRITE = (16, 0)"
  "(12 :: HANDLE) \<noteq> INVALID_HANDLE_VALUE" "(16 :: HANDLE) \<noteq> INVALID_HANDLE_VALUE"
  "VtInputThread_throws engine_fails_again_env 12 = None"
  "RenderEngine_throws engine_fails_again_env e = Some bad_alloc"
  by (simp_all add: engine_fails_again_env_def L_def GENERIC_READ_def GENERIC_WRITE_def
      INVALID_HANDLE_VALUE_def)

lemma retry_engine:
  "EngineFactory_spec (snd (ParseIoMode (L ''xterm''))) 16 (GetColorTable two_colours)
     (word_of_nat (GetColorTableSize two_colours)) = Some (XtermEngine 16 [0, 0x00FFFFFF] 2)"
  by (simp add: parse_examples EngineFactory_spec_def GetColorTable_def GetColorTableSize_def
      two_colours_def)

lemma run_engine_fails_again:
  "Initialize engine_fails_again_env two_colours (L ''in'') (L ''out'') (L ''xterm'')
     \<lparr>usingVt = False, IoMode = XTERM, pVtInputThread = Some (VtInputThread 4),
       pVtRenderEngine = None\<rparr>
     \<lparr>open_handles = [4],
       trace = [Call_CreateFileW (L ''in'') GENERIC_READ, Call_CreateFileW (L ''out'') GENERIC_WRITE,
               Call_new_VtInputThread 4, Call_new_RenderEngine (XtermEngine 8 [0, 0x00FFFFFF] 2),
               Call_CloseHandle 8]\<rparr> =
   (E_OUTOFMEMORY,
    \<lparr>usingVt = False, IoMode = XTERM, pVtInputThread = Some (VtInputThread 12),
      pVtRenderEngine = None\<rparr>,
    \<lparr>open_handles = [12],
      trace = [Call_CreateFileW (L ''in'') GENERIC_READ, Call_CreateFileW (L ''out'') GENERIC_WRITE,
               Call_new_VtInputThread 4, Call_new_RenderEngine (XtermEngine 8 [0, 0x00FFFFFF] 2),
               Call_CloseHandle 8,
               Call_CreateFileW (L ''in'') GENERIC_READ, Call_CreateFileW (L ''out'') GENERIC_WRITE,
               Call_new_VtInputThread 12, Call_CloseHandle 4,
               Call_new_RenderEngine (XtermEngine 16 [0, 0x00FFFFFF] 2),
               Call_CloseHandle 16]\<rparr>)"
proof -
  have p: "fst (ParseIoMode (L ''xterm'')) = S_OK" by (simp add: parse_examples)
  have i: "(4 :: HANDLE) \<noteq> INVALID_HANDLE_VALUE" "(4 :: HANDLE) \<noteq> 16"
    by (simp_all add: INVALID_HANDLE_VALUE_def)
  show ?thesis
    using Initialize_eq [OF path_engine [OF p retry_open(1) retry_open(3) retry_open(2)
          retry_open(4) retry_open(5) retry_engine retry_open(6)]]
    by (simp add: parse_examples ResultFromCaughtException_def assign_pVtInputThread_def log_def
        unique_hfile_dtor_def CloseHandle_def retry_open i)
qed

section \<open>StartIfNeeded and sequences of calls\<close>

lemma Initialize_flag:
  assumes "Initialize env gci InPipeName OutPipeName VtMode this w = (hr, this', w')"
  shows "(IsUsingVt this' \<longleftrightarrow> IsUsingVt this \<or> SUCCEEDED hr) \<and>
         (SUCCEEDED hr \<longleftrightarrow> hr = S_OK) \<and> (VtIo_inv this \<longrightarrow> VtIo_inv this')"
proof -
  obtain hIn errIn where i: "CreateFileW_result env InPipeName GENERIC_READ = (hIn, errIn)"
    by (cases "CreateFileW_result env InPipeName GENERIC_READ")
  obtain hOut errOut where ou: "CreateFileW_result env OutPipeName GENERIC_WRITE = (hOut, errOut)"
    by (cases "CreateFileW_result env OutPipeName GENERIC_WRITE")
  from i ou assms show ?thesis
  proof (cases rule: Initialize_cases)
    case at_parse
    then show ?thesis
      by (simp add: IsUsingVt_def VtIo_inv_def SUCCEEDED_iff_not_FAILED HRESULT_consts)
  next
    case at_input
    then show ?thesis
      using S_OK_not_failure(2) [of errIn]
      by (simp add: IsUsingVt_def VtIo_inv_def SUCCEEDED_iff_not_FAILED FAILED_GetLastErrorFailHr
          eq_commute)
  next
    case at_output
    then show ?thesis
      using S_OK_not_failure(2) [of errOut]
      by (simp add: IsUsingVt_def VtIo_inv_def SUCCEEDED_iff_not_FAILED FAILED_GetLastErrorFailHr
          eq_commute)
  next
    case (at_thread x)
    then show ?thesis
      using S_OK_not_failure(3) [of x]
      by (simp add: IsUsingVt_def VtIo_inv_def SUCCEEDED_iff_not_FAILED
          FAILED_ResultFromCaughtException eq_commute)
  next
    case (at_engine e x cs)
    then show ?thesis
      using S_OK_not_failure(3) [of x]
      by (simp add: IsUsingVt_def VtIo_inv_def SUCCEEDED_iff_not_FAILED
          FAILED_ResultFromCaughtException eq_commute)
  next
    case (at_ok e cs ds)
    then show ?thesis
      by (simp add: IsUsingVt_def VtIo_inv_def HRESULT_consts)
  qed
qed

lemma StartIfNeeded_idle:
  "\<not> IsUsingVt this \<Longrightarrow> StartIfNeeded env this w = Some (S_FALSE, this, w)"
  by (simp add: StartIfNeeded_def)

lemma StartIfNeeded_this:
  "StartIfNeeded env this w = Some (hr, this', w') \<Longrightarrow> this' = this"
  by (auto simp: StartIfNeeded_def split: if_splits option.splits)

lemma StartIfNeeded_configured:
  assumes "IsUsingVt this" and "pVtInputThread this = Some t" and "pVtRenderEngine this = Some e"
  shows "StartIfNeeded env this w =
     (case AddRenderEngine_throws env (Some e) of
        None \<Rightarrow> Some (S_OK, this,
                  w\<lparr>trace := trace w @ [Call_AddRenderEngine (Some e), Call_Start t]\<rparr>)
      | Some x \<Rightarrow> Some (ResultFromCaughtException x, this,
                  w\<lparr>trace := trace w @ [Call_AddRenderEngine (Some e)]\<rparr>))"
  using assms by (simp add: StartIfNeeded_def log_def split: option.splits)

lemma step_inv:
  assumes "VtIo_inv this"
  shows "\<exists>hr this1 w1. step c this w = Some (hr, this1, w1) \<and> VtIo_inv this1 \<and>
     (IsUsingVt this1 \<longleftrightarrow> IsUsingVt this \<or> (is_Initialize c \<and> SUCCEEDED hr))"
proof (cases c)
  case (Op_Initialize env gci InPipeName OutPipeName VtMode)
  obtain hr this1 w1 where
    r: "Initialize env gci InPipeName OutPipeName VtMode this w = (hr, this1, w1)"
    by (cases "Initialize env gci InPipeName OutPipeName VtMode this w")
  from Initialize_flag [OF r] assms Op_Initialize r show ?thesis by simp
next
  case (Op_StartIfNeeded env)
  show ?thesis
  proof (cases "IsUsingVt this")
    case False
    with Op_StartIfNeeded assms show ?thesis by (simp add: StartIfNeeded_idle)
  next
    case True
    with assms obtain t e where "pVtInputThread this = Some t" "pVtRenderEngine this = Some e"
      by (auto simp: VtIo_inv_def IsUsingVt_def)
    from StartIfNeeded_configured [OF True this, of env w] Op_StartIfNeeded assms
    show ?thesis by (simp split: option.splits)
  qed
qed

lemma run_inv:
  assumes "VtIo_inv this"
  shows "\<exists>hrs this' w'. run ops this w = Some (hrs, this', w') \<and> length hrs = length ops \<and>
     VtIo_inv this' \<and>
     (IsUsingVt this' \<longleftrightarrow>
        IsUsingVt this \<or> (\<exists>k<length ops. is_Initialize (ops ! k) \<and> SUCCEEDED (hrs ! k)))"
  using assms
proof (induction ops arbitrary: this w)
  case Nil
  then show ?case by simp
next
  case (Cons c cs)
  from step_inv [OF Cons.prems, of c w] obtain hr this1 w1 where
    s: "step c this w = Some (hr, this1, w1)" "VtIo_inv this1"
      "IsUsingVt this1 \<longleftrightarrow> IsUsingVt this \<or> (is_Initialize c \<and> SUCCEEDED hr)"
    by blast
  from Cons.IH [OF s(2), of w1] obtain hrs this' w' where
    r: "run cs this1 w1 = Some (hrs, this', w')" "length hrs = length cs" "VtIo_inv this'"
      "IsUsingVt this' \<longleftrightarrow>
         IsUsingVt this1 \<or> (\<exists>k<length cs. is_Initialize (cs ! k) \<and> SUCCEEDED (hrs ! k))"
    by blast
  have e: "(\<exists>k<length (c # cs). is_Initialize ((c # cs) ! k) \<and> SUCCEEDED ((hr # hrs) ! k)) \<longleftrightarrow>
     (is_Initialize c \<and> SUCCEEDED hr) \<or>
     (\<exists>k<length cs. is_Initialize (cs ! k) \<and> SUCCEEDED (hrs ! k))"
    by (auto simp: less_Suc_eq_0_disj)
  have "run (c # cs) this w = Some (hr # hrs, this', w')"
    using s(1) r(1) by simp
  moreover have "length (hr # hrs) = length (c # cs)" using r(2) by simp
  moreover have "IsUsingVt this' \<longleftrightarrow> IsUsingVt this \<or>
     (\<exists>k<length (c # cs). is_Initialize ((c # cs) ! k) \<and> SUCCEEDED ((hr # hrs) ! k))"
    unfolding e using s(3) r(4) by blast
  ultimately show ?case using r(3) by blast
qed

lemma inv_ctor: "VtIo_inv (VtIo_ctor m0)"
  by (simp add: VtIo_inv_def VtIo_ctor_def)

lemma StartIfNeeded_examples:
  "StartIfNeeded pipes_env (VtIo_ctor INVALID) quiet_world =
     Some (S_FALSE, VtIo_ctor INVALID, quiet_world)"
  "StartIfNeeded pipes_env
     \<lparr>usingVt = False, IoMode = XTERM, pVtInputThread = Some (VtInputThread 4),
       pVtRenderEngine = None\<rparr> w =
   Some (S_FALSE,
     \<lparr>usingVt = False, IoMode = XTERM, pVtInputThread = Some (VtInputThread 4),
       pVtRenderEngine = None\<rparr>, w)"
  "StartIfNeeded pipes_env
     \<lparr>usingVt = True, IoMode = XTERM_256, pVtInputThread = Some (VtInputThread 4),
       pVtRenderEngine = Some (Xterm256Engine 8)\<rparr>
     \<lparr>open_handles = hs, trace = tr\<rparr> =
   Some (S_OK,
     \<lparr>usingVt = True, IoMode = XTERM_256, pVtInputThread = Some (VtInputThread 4),
       pVtRenderEngine = Some (Xterm256Engine 8)\<rparr>,
     \<lparr>open_handles = hs,
       trace = tr @ [Call_AddRenderEngine (Some (Xterm256Engine 8)),
                     Call_Start (VtInputThread 4)]\<rparr>)"
  "StartIfNeeded renderer_fails_env
     \<lparr>usingVt = True, IoMode = XTERM_256, pVtInputThread = Some (VtInputThread 4),
       pVtRenderEngine = Some (Xterm256Engine 8)\<rparr>
     \<lparr>open_handles = hs, trace = tr\<rparr> =
   Some (E_OUTOFMEMORY,
     \<lparr>usingVt = True, IoMode = XTERM_256, pVtInputThread = Some (VtInputThread 4),
       pVtRenderEngine = Some (Xterm256Engine 8)\<rparr>,
     \<lparr>open_handles = hs, trace = tr @ [Call_AddRenderEngine (Some (Xterm256Engine 8))]\<rparr>)"
  by (simp_all add: StartIfNeeded_def IsUsingVt_def fixture_defs VtIo_ctor_def log_def
      ResultFromCaughtException_def)

lemma history_configured:
  "run [Op_StartIfNeeded pipes_env,
        Op_Initialize pipes_env two_colours (L ''in'') (L ''out'') (L '''')]
     (VtIo_ctor INVALID) quiet_world =
   Some ([S_FALSE, S_OK],
     \<lparr>usingVt = True, IoMode = XTERM_256, pVtInputThread = Some (VtInputThread 4),
       pVtRenderEngine = Some (Xterm256Engine 8)\<rparr>,
     \<lparr>open_handles = [8, 4],
       trace = [Call_CreateFileW (L ''in'') GENERIC_READ, Call_CreateFileW (L ''out'') GENERIC_WRITE,
                Call_new_VtInputThread 4, Call_new_RenderEngine (Xterm256Engine 8)]\<rparr>)"
  by (simp add: StartIfNeeded_examples run_ok)

lemma history_failed:
  "run [Op_StartIfNeeded pipes_env,
        Op_Initialize engine_fails_env two_colours (L ''in'') (L ''out'') (L ''xterm'')]
     (VtIo_ctor INVALID) quiet_world =
   Some ([S_FALSE, E_OUTOFMEMORY],
     \<lparr>usingVt = False, IoMode = XTERM, pVtInputThread = Some (VtInputThread 4),
       pVtRenderEngine = None\<rparr>,
     \<lparr>open_handles = [4],
       trace = [Call_CreateFileW (L ''in'') GENERIC_READ, Call_CreateFileW (L ''out'') GENERIC_WRITE,
               Call_new_VtInputThread 4, Call_new_RenderEngine (XtermEngine 8 [0, 0x00FFFFFF] 2),
               Call_CloseHandle 8]\<rparr>)"
  by (simp add: StartIfNeeded_examples run_engine_fails)

section \<open>The claims\<close>

text \<open>
  C1. \<open>ParseIoMode\<close> is a function of the token alone. It succeeds with \<open>XTERM_256\<close> on the
  empty string and on \<open>xterm-256color\<close>, with \<open>XTERM\<close> on \<open>xterm\<close>, with \<open>WIN_TELNET\<close> on
  \<open>win-telnet\<close>, and on every other string it returns \<open>E_INVALIDARG\<close>, a failure code, with
  the mode \<open>INVALID\<close>. The comparison is of the code units as they are: \<open>XTERM\<close> in capitals
  is rejected.
\<close>

theorem ParseIoMode_total:
  "ParseIoMode (L '''') = (S_OK, XTERM_256) \<and>
   ParseIoMode (L ''xterm-256color'') = (S_OK, XTERM_256) \<and>
   ParseIoMode (L ''xterm'') = (S_OK, XTERM) \<and>
   ParseIoMode (L ''win-telnet'') = (S_OK, WIN_TELNET) \<and>
   (VtMode \<notin> {L '''', L ''xterm-256color'', L ''xterm'', L ''win-telnet''} \<longrightarrow>
      ParseIoMode VtMode = (E_INVALIDARG, INVALID)) \<and>
   SUCCEEDED S_OK \<and> FAILED E_INVALIDARG"
proof -
  have eqs: "XTERM_STRING = L ''xterm''" "XTERM_256_STRING = L ''xterm-256color''"
    "WIN_TELNET_STRING = L ''win-telnet''" "DEFAULT_STRING = L ''''"
    by (simp_all add: XTERM_STRING_def XTERM_256_STRING_def WIN_TELNET_STRING_def
        DEFAULT_STRING_def)
  show ?thesis
    using tokens_distinct unfolding eqs [symmetric]
    by (simp add: ParseIoMode_def HRESULT_consts)
qed

theorem ParseIoMode_total_witness:
  "L ''XTERM'' \<notin> {L '''', L ''xterm-256color'', L ''xterm'', L ''win-telnet''} \<and>
   ParseIoMode (L ''XTERM'') = (E_INVALIDARG, INVALID)"
proof -
  have ne: "L ''XTERM'' \<notin> {L '''', L ''xterm-256color'', L ''xterm'', L ''win-telnet''}"
    by (simp add: L_def)
  with ParseIoMode_total [of "L ''XTERM''"] show ?thesis by blast
qed

text \<open>
  C2, as stated, fails. On a machine where both pipes open (handles 4 and 8) and the engine's
  constructor throws \<open>std::bad_alloc\<close>, \<open>Initialize\<close> with the token \<open>xterm\<close> on a fresh
  \<open>VtIo\<close> returns the failure \<open>E_OUTOFMEMORY\<close>; no handle was open before the call, but
  afterwards handle 4 is still open, held by the input thread that the call has stored in
  \<open>_pVtInputThread\<close>.
\<close>

theorem Initialize_engine_failure_keeps_input_open:
  "fst (Initialize engine_fails_env two_colours (L ''in'') (L ''out'') (L ''xterm'')
          (VtIo_ctor INVALID) quiet_world) = E_OUTOFMEMORY \<and>
   FAILED E_OUTOFMEMORY \<and>
   open_handles quiet_world = [] \<and>
   open_handles (snd (snd (Initialize engine_fails_env two_colours (L ''in'') (L ''out'')
          (L ''xterm'') (VtIo_ctor INVALID) quiet_world))) = [4] \<and>
   pVtInputThread (VtIo_ctor INVALID) = None \<and>
   pVtInputThread (fst (snd (Initialize engine_fails_env two_colours (L ''in'') (L ''out'')
          (L ''xterm'') (VtIo_ctor INVALID) quiet_world))) = Some (VtInputThread 4)"
  by (simp add: run_engine_fails HRESULT_consts fresh_simps)

text \<open>
  C2, amended. A call of \<open>Initialize\<close> returns something other than \<open>S_OK\<close> exactly when one
  of its steps fails: the token is not recognised, a pipe does not open, or the constructor
  of the input thread or of the engine throws. It then returns a failure code and leaves
  \<open>_usingVt\<close> and \<open>_pVtRenderEngine\<close> as they were. If it fails before the input thread is
  stored (at the token, at a pipe, or in the input thread's constructor), \<open>_pVtInputThread\<close>
  is as it was too and the open handles are those from before the call. If it fails after
  that, because the engine's constructor throws, then on every instance: the input thread
  built by this call has replaced what \<open>_pVtInputThread\<close> held, the calls made are the two
  opens, the construction of the thread, the \<open>CloseHandle\<close> of the replaced thread's handle if
  there was one, the attempted construction of the engine, and last the \<open>CloseHandle\<close> of the
  output handle; the handle table is the one before the call with both new handles added,
  the replaced thread's removed and the output handle removed. With the replaced thread's
  handle distinct from the two new ones, that is the input handle in front of the earlier
  table less the replaced thread's handle: the input handle stays open.
\<close>

theorem Initialize_failure_release:
  assumes "CreateFileW_result env InPipeName GENERIC_READ = (hIn, errIn)"
    and "CreateFileW_result env OutPipeName GENERIC_WRITE = (hOut, errOut)"
    and "Initialize env gci InPipeName OutPipeName VtMode this w = (hr, this', w')"
  shows
    "(hr \<noteq> S_OK \<longleftrightarrow>
        fst (ParseIoMode VtMode) \<noteq> S_OK \<or> hIn = INVALID_HANDLE_VALUE \<or>
        hOut = INVALID_HANDLE_VALUE \<or> VtInputThread_throws env hIn \<noteq> None \<or>
        (\<exists>e. EngineFactory_spec (snd (ParseIoMode VtMode)) hOut (GetColorTable gci)
                (word_of_nat (GetColorTableSize gci)) = Some e \<and>
             RenderEngine_throws env e \<noteq> None)) \<and>
     (hr \<noteq> S_OK \<longrightarrow>
        FAILED hr \<and> IsUsingVt this' = IsUsingVt this \<and>
        pVtRenderEngine this' = pVtRenderEngine this \<and>
        (if fst (ParseIoMode VtMode) = S_OK \<and> hIn \<noteq> INVALID_HANDLE_VALUE \<and>
            hOut \<noteq> INVALID_HANDLE_VALUE \<and> VtInputThread_throws env hIn = None
         then pVtInputThread this' = Some (VtInputThread hIn) \<and>
              (\<exists>e. EngineFactory_spec (snd (ParseIoMode VtMode)) hOut (GetColorTable gci)
                      (word_of_nat (GetColorTableSize gci)) = Some e \<and>
                   trace w' =
                     trace w @
                     [Call_CreateFileW InPipeName GENERIC_READ,
                      Call_CreateFileW OutPipeName GENERIC_WRITE, Call_new_VtInputThread hIn] @
                     (case pVtInputThread this of
                        None \<Rightarrow> []
                      | Some old \<Rightarrow>
                          if thread_handle old = INVALID_HANDLE_VALUE then []
                          else [Call_CloseHandle (thread_handle old)]) @
                     [Call_new_RenderEngine e, Call_CloseHandle hOut]) \<and>
              open_handles w' =
                remove1 hOut
                  (case pVtInputThread this of
                     None \<Rightarrow> hOut # hIn # open_handles w
                   | Some old \<Rightarrow>
                       if thread_handle old = INVALID_HANDLE_VALUE
                       then hOut # hIn # open_handles w
                       else remove1 (thread_handle old) (hOut # hIn # open_handles w)) \<and>
              ((case pVtInputThread this of
                  None \<Rightarrow> True
                | Some old \<Rightarrow> thread_handle old \<noteq> hIn \<and> thread_handle old \<noteq> hOut) \<longrightarrow>
                 open_handles w' =
                   hIn # (case pVtInputThread this of
                            None \<Rightarrow> open_handles w
                          | Some old \<Rightarrow>
                              if thread_handle old = INVALID_HANDLE_VALUE then open_handles w
                              else remove1 (thread_handle old) (open_handles w)))
         else pVtInputThread this' = pVtInputThread this \<and> open_handles w' = open_handles w))"
  using assms
proof (cases rule: Initialize_cases)
  case at_parse
  then show ?thesis by (simp add: HRESULT_consts IsUsingVt_def)
next
  case at_input
  then show ?thesis
    using S_OK_not_failure(2) [of errIn, THEN not_sym]
    by (simp add: FAILED_GetLastErrorFailHr IsUsingVt_def)
next
  case at_output
  then show ?thesis
    using S_OK_not_failure(2) [of errOut, THEN not_sym]
    by (simp add: FAILED_GetLastErrorFailHr IsUsingVt_def)
next
  case (at_thread x)
  then show ?thesis
    using S_OK_not_failure(3) [of x, THEN not_sym]
    by (simp add: FAILED_ResultFromCaughtException IsUsingVt_def)
next
  case (at_engine e x cs)
  let ?w3 = "w\<lparr>open_handles := hOut # hIn # open_handles w,
                trace := trace w @ [Call_CreateFileW InPipeName GENERIC_READ,
                  Call_CreateFileW OutPipeName GENERIC_WRITE, Call_new_VtInputThread hIn]\<rparr>"
  from Initialize_eq [OF path_engine [OF at_engine(1) assms(1) at_engine(2) assms(2)
        at_engine(3-6)]] assms(3)
  have w': "w' = unique_hfile_dtor hOut (log (Call_new_RenderEngine e)
               (snd (assign_pVtInputThread (VtInputThread hIn) this ?w3)))"
    by simp
  have t: "trace w' =
      trace w @
      [Call_CreateFileW InPipeName GENERIC_READ,
       Call_CreateFileW OutPipeName GENERIC_WRITE, Call_new_VtInputThread hIn] @
      (case pVtInputThread this of
         None \<Rightarrow> []
       | Some old \<Rightarrow>
           if thread_handle old = INVALID_HANDLE_VALUE then []
           else [Call_CloseHandle (thread_handle old)]) @
      [Call_new_RenderEngine e, Call_CloseHandle hOut]"
    using at_engine(3)
    by (simp add: w' unique_hfile_dtor_def CloseHandle_def log_def assign_pVtInputThread_exact
        split: option.splits)
  have h: "open_handles w' =
      remove1 hOut
        (case pVtInputThread this of
           None \<Rightarrow> hOut # hIn # open_handles w
         | Some old \<Rightarrow>
             if thread_handle old = INVALID_HANDLE_VALUE
             then hOut # hIn # open_handles w
             else remove1 (thread_handle old) (hOut # hIn # open_handles w))"
    using at_engine(3)
    by (simp add: w' unique_hfile_dtor_def CloseHandle_def log_def assign_pVtInputThread_exact
        split: option.splits)
  have d: "(case pVtInputThread this of
              None \<Rightarrow> True
            | Some old \<Rightarrow> thread_handle old \<noteq> hIn \<and> thread_handle old \<noteq> hOut) \<longrightarrow>
           open_handles w' =
             hIn # (case pVtInputThread this of
                      None \<Rightarrow> open_handles w
                    | Some old \<Rightarrow>
                        if thread_handle old = INVALID_HANDLE_VALUE then open_handles w
                        else remove1 (thread_handle old) (open_handles w))"
    unfolding h by (simp split: option.splits)
  have f: "hr \<noteq> S_OK" "FAILED hr"
    using at_engine(7) S_OK_not_failure(3) [of x, THEN not_sym]
      FAILED_ResultFromCaughtException [of x]
    by simp_all
  have b: "pVtInputThread this' = Some (VtInputThread hIn)" "IsUsingVt this' = IsUsingVt this"
    "pVtRenderEngine this' = pVtRenderEngine this"
    using at_engine(8) by (simp_all add: IsUsingVt_def)
  have c: "fst (ParseIoMode VtMode) = S_OK \<and> hIn \<noteq> INVALID_HANDLE_VALUE \<and>
            hOut \<noteq> INVALID_HANDLE_VALUE \<and> VtInputThread_throws env hIn = None"
    using at_engine(1-4) by simp
  have ex: "\<exists>e. EngineFactory_spec (snd (ParseIoMode VtMode)) hOut (GetColorTable gci)
                (word_of_nat (GetColorTableSize gci)) = Some e \<and>
             RenderEngine_throws env e \<noteq> None"
    using at_engine(5,6) by auto
  show ?thesis
    unfolding if_P [OF c]
    using f b t h d ex at_engine(5) by blast
next
  case (at_ok e cs ds)
  then show ?thesis by auto
qed

theorem Initialize_failure_release_witness:
  "E_OUTOFMEMORY \<noteq> S_OK \<and> FAILED E_OUTOFMEMORY \<and>
   open_handles (snd (snd (Initialize engine_fails_env two_colours (L ''in'') (L ''out'')
      (L ''xterm'') (VtIo_ctor INVALID) quiet_world))) = 4 # open_handles quiet_world \<and>
   pVtInputThread (fst (snd (Initialize engine_fails_again_env two_colours (L ''in'') (L ''out'')
      (L ''xterm'')
      \<lparr>usingVt = False, IoMode = XTERM, pVtInputThread = Some (VtInputThread 4),
        pVtRenderEngine = None\<rparr>
      \<lparr>open_handles = [4],
        trace = [Call_CreateFileW (L ''in'') GENERIC_READ,
                 Call_CreateFileW (L ''out'') GENERIC_WRITE,
                 Call_new_VtInputThread 4, Call_new_RenderEngine (XtermEngine 8 [0, 0x00FFFFFF] 2),
                 Call_CloseHandle 8]\<rparr>))) = Some (VtInputThread 12) \<and>
   open_handles (snd (snd (Initialize engine_fails_again_env two_colours (L ''in'') (L ''out'')
      (L ''xterm'')
      \<lparr>usingVt = False, IoMode = XTERM, pVtInputThread = Some (VtInputThread 4),
        pVtRenderEngine = None\<rparr>
      \<lparr>open_handles = [4],
        trace = [Call_CreateFileW (L ''in'') GENERIC_READ,
                 Call_CreateFileW (L ''out'') GENERIC_WRITE,
                 Call_new_VtInputThread 4, Call_new_RenderEngine (XtermEngine 8 [0, 0x00FFFFFF] 2),
                 Call_CloseHandle 8]\<rparr>))) = [12] \<and>
   (0x80070002 :: HRESULT) \<noteq> S_OK \<and>
   open_handles (snd (snd (Initialize pipes_env two_colours (L ''in'') (L ''nowhere'')
      (L '''') (VtIo_ctor INVALID) quiet_world))) = open_handles quiet_world"
proof -
  have ne: "E_OUTOFMEMORY \<noteq> S_OK" "(0x80070002 :: HRESULT) \<noteq> S_OK"
    "(4 :: HANDLE) \<noteq> 12" "(4 :: HANDLE) \<noteq> 16" "(4 :: HANDLE) \<noteq> INVALID_HANDLE_VALUE"
    by (simp_all add: E_OUTOFMEMORY_def S_OK_def INVALID_HANDLE_VALUE_def)
  note a = Initialize_failure_release [OF pipes_open(5) pipes_open(6) run_engine_fails]
  note b = Initialize_failure_release [OF retry_open(1) retry_open(2) run_engine_fails_again]
  note c = Initialize_failure_release [OF pipes_open(1) pipes_open(4) run_missing_out]
  from a b c show ?thesis
    by (simp add: ne run_engine_fails run_engine_fails_again run_missing_out parse_examples
        pipes_open retry_open throw_examples fresh_simps HRESULT_consts)
qed

text \<open>
  C3. When the token is recognised and the input pipe opens but the output pipe does not,
  \<open>Initialize\<close> makes exactly three calls, the two opens and then \<open>CloseHandle\<close> on the input
  handle, returns the failure code of the output open, and leaves the open handles as they
  were before the call. When the input pipe does not open, the only call it makes is that
  open: the output pipe is never opened.
\<close>

theorem Initialize_partial_open:
  "(fst (ParseIoMode VtMode) = S_OK \<and>
    CreateFileW_result env InPipeName GENERIC_READ = (hIn, errIn) \<and>
    hIn \<noteq> INVALID_HANDLE_VALUE \<and>
    CreateFileW_result env OutPipeName GENERIC_WRITE = (INVALID_HANDLE_VALUE, errOut) \<longrightarrow>
      Initialize env gci InPipeName OutPipeName VtMode this w =
        (GetLastErrorFailHr errOut, this\<lparr>IoMode := snd (ParseIoMode VtMode)\<rparr>,
         w\<lparr>trace := trace w @ [Call_CreateFileW InPipeName GENERIC_READ,
               Call_CreateFileW OutPipeName GENERIC_WRITE, Call_CloseHandle hIn]\<rparr>) \<and>
      FAILED (GetLastErrorFailHr errOut) \<and>
      open_handles (snd (snd (Initialize env gci InPipeName OutPipeName VtMode this w))) =
        open_handles w) \<and>
   (fst (ParseIoMode VtMode) = S_OK \<and>
    CreateFileW_result env InPipeName GENERIC_READ = (INVALID_HANDLE_VALUE, errIn) \<longrightarrow>
      Initialize env gci InPipeName OutPipeName VtMode this w =
        (GetLastErrorFailHr errIn, this\<lparr>IoMode := snd (ParseIoMode VtMode)\<rparr>,
         w\<lparr>trace := trace w @ [Call_CreateFileW InPipeName GENERIC_READ]\<rparr>) \<and>
      FAILED (GetLastErrorFailHr errIn))"
  by (simp add: Initialize_eq [OF path_output] Initialize_eq [OF path_input]
      FAILED_GetLastErrorFailHr)

theorem Initialize_partial_open_witness:
  "Initialize pipes_env two_colours (L ''in'') (L ''nowhere'') (L '''') (VtIo_ctor INVALID)
     quiet_world =
   (0x80070002, (VtIo_ctor INVALID)\<lparr>IoMode := XTERM_256\<rparr>,
    quiet_world\<lparr>trace := [Call_CreateFileW (L ''in'') GENERIC_READ,
       Call_CreateFileW (L ''nowhere'') GENERIC_WRITE, Call_CloseHandle 4]\<rparr>) \<and>
   Initialize pipes_env two_colours (L ''nowhere'') (L ''out'') (L '''') (VtIo_ctor INVALID)
     quiet_world =
   (0x80070002, (VtIo_ctor INVALID)\<lparr>IoMode := XTERM_256\<rparr>,
    quiet_world\<lparr>trace := [Call_CreateFileW (L ''nowhere'') GENERIC_READ]\<rparr>)"
proof -
  have p: "fst (ParseIoMode (L '''')) = S_OK" "snd (ParseIoMode (L '''')) = XTERM_256"
    by (simp_all add: parse_examples)
  have g: "GetLastErrorFailHr 2 = 0x80070002"
    by (simp add: GetLastErrorFailHr_def HRESULT_FROM_WIN32_def)
  note a = Initialize_partial_open [where VtMode = "L ''''" and env = pipes_env
      and InPipeName = "L ''in''" and OutPipeName = "L ''nowhere''" and hIn = 4 and errIn = 0
      and errOut = 2 and gci = two_colours and this = "VtIo_ctor INVALID" and w = quiet_world]
  note b = Initialize_partial_open [where VtMode = "L ''''" and env = pipes_env
      and InPipeName = "L ''nowhere''" and OutPipeName = "L ''out''" and errIn = 2
      and gci = two_colours and this = "VtIo_ctor INVALID" and w = quiet_world]
  from a b show ?thesis
    by (simp add: p g pipes_open fresh_simps)
qed

text \<open>
  C4. \<open>IsUsingVt\<close> is false on a freshly constructed \<open>VtIo\<close>. After any sequence of
  \<open>Initialize\<close> and \<open>StartIfNeeded\<close> calls on a fresh instance (every such sequence runs to its
  end), it is true exactly when some \<open>Initialize\<close> of the sequence succeeded. A single
  \<open>Initialize\<close> sets it exactly when it succeeds and otherwise leaves it as it was, and
  \<open>StartIfNeeded\<close> never changes it, whatever it returns.
\<close>

theorem IsUsingVt_history:
  "\<not> IsUsingVt (VtIo_ctor m0) \<and>
   (\<exists>hrs this w. run ops (VtIo_ctor m0) w0 = Some (hrs, this, w) \<and> length hrs = length ops \<and>
      (IsUsingVt this \<longleftrightarrow>
         (\<exists>k<length ops. is_Initialize (ops ! k) \<and> SUCCEEDED (hrs ! k)))) \<and>
   (Initialize env gci InPipeName OutPipeName VtMode this1 w1 = (hr, this2, w2) \<longrightarrow>
      (IsUsingVt this2 \<longleftrightarrow> IsUsingVt this1 \<or> SUCCEEDED hr)) \<and>
   (StartIfNeeded env this1 w1 = Some (hr', this3, w3) \<longrightarrow> IsUsingVt this3 = IsUsingVt this1)"
proof -
  have f: "\<not> IsUsingVt (VtIo_ctor m0)" by (simp add: IsUsingVt_def VtIo_ctor_def)
  from run_inv [OF inv_ctor, of ops m0 w0] f
  have h: "\<exists>hrs this w. run ops (VtIo_ctor m0) w0 = Some (hrs, this, w) \<and>
      length hrs = length ops \<and>
      (IsUsingVt this \<longleftrightarrow>
         (\<exists>k<length ops. is_Initialize (ops ! k) \<and> SUCCEEDED (hrs ! k)))"
    by auto
  have i: "Initialize env gci InPipeName OutPipeName VtMode this1 w1 = (hr, this2, w2) \<longrightarrow>
      (IsUsingVt this2 \<longleftrightarrow> IsUsingVt this1 \<or> SUCCEEDED hr)"
    using Initialize_flag by blast
  have s: "StartIfNeeded env this1 w1 = Some (hr', this3, w3) \<longrightarrow>
      IsUsingVt this3 = IsUsingVt this1"
    using StartIfNeeded_this by blast
  from f h i s show ?thesis by blast
qed

theorem IsUsingVt_history_witness:
  "\<not> IsUsingVt (VtIo_ctor INVALID) \<and>
   Initialize pipes_env two_colours (L ''in'') (L ''out'') (L '''') (VtIo_ctor INVALID)
     quiet_world =
   (S_OK,
    \<lparr>usingVt = True, IoMode = XTERM_256, pVtInputThread = Some (VtInputThread 4),
      pVtRenderEngine = Some (Xterm256Engine 8)\<rparr>,
    \<lparr>open_handles = [8, 4],
      trace = [Call_CreateFileW (L ''in'') GENERIC_READ, Call_CreateFileW (L ''out'') GENERIC_WRITE,
               Call_new_VtInputThread 4, Call_new_RenderEngine (Xterm256Engine 8)]\<rparr>) \<and>
   SUCCEEDED S_OK \<and>
   IsUsingVt \<lparr>usingVt = True, IoMode = XTERM_256, pVtInputThread = Some (VtInputThread 4),
      pVtRenderEngine = Some (Xterm256Engine 8)\<rparr> \<and>
   StartIfNeeded pipes_env (VtIo_ctor INVALID) quiet_world =
     Some (S_FALSE, VtIo_ctor INVALID, quiet_world)"
proof -
  note a = IsUsingVt_history [where ?m0.0 = INVALID
      and ops = "[Op_StartIfNeeded pipes_env,
        Op_Initialize pipes_env two_colours (L ''in'') (L ''out'') (L '''')]"
      and ?w0.0 = quiet_world and env = pipes_env and gci = two_colours
      and InPipeName = "L ''in''" and OutPipeName = "L ''out''" and VtMode = "L ''''"
      and ?this1.0 = "VtIo_ctor INVALID" and ?w1.0 = quiet_world and hr = S_OK
      and ?this2.0 = "\<lparr>usingVt = True, IoMode = XTERM_256,
        pVtInputThread = Some (VtInputThread 4), pVtRenderEngine = Some (Xterm256Engine 8)\<rparr>"
      and ?w2.0 = "\<lparr>open_handles = [8, 4],
        trace = [Call_CreateFileW (L ''in'') GENERIC_READ,
                 Call_CreateFileW (L ''out'') GENERIC_WRITE,
                 Call_new_VtInputThread 4, Call_new_RenderEngine (Xterm256Engine 8)]\<rparr>"
      and hr' = S_FALSE and ?this3.0 = "VtIo_ctor INVALID" and ?w3.0 = quiet_world]
  from a show ?thesis
    by (simp add: run_ok StartIfNeeded_examples HRESULT_consts IsUsingVt_def fresh_simps)
qed

text \<open>
  C5. On an instance that is not using VT, \<open>StartIfNeeded\<close> returns \<open>S_FALSE\<close> and leaves the
  object and the world exactly as they were: no call is added to the trace, so no engine is
  registered and no thread is started. That is the case in particular after any sequence of
  calls on a fresh instance in which no \<open>Initialize\<close> succeeded. \<open>S_FALSE\<close> is a success code
  and differs from \<open>S_OK\<close>.
\<close>

theorem StartIfNeeded_unconfigured:
  "(\<not> IsUsingVt this \<longrightarrow> StartIfNeeded env this w = Some (S_FALSE, this, w)) \<and>
   (run ops (VtIo_ctor m0) w0 = Some (hrs, this', w') \<and>
    (\<forall>k<length ops. is_Initialize (ops ! k) \<longrightarrow> FAILED (hrs ! k)) \<longrightarrow>
      StartIfNeeded env this' w' = Some (S_FALSE, this', w')) \<and>
   SUCCEEDED S_FALSE \<and> \<not> FAILED S_FALSE \<and> S_FALSE \<noteq> S_OK"
proof -
  have a: "\<not> IsUsingVt this \<longrightarrow> StartIfNeeded env this w = Some (S_FALSE, this, w)"
    by (simp add: StartIfNeeded_idle)
  have b: "StartIfNeeded env this' w' = Some (S_FALSE, this', w')"
    if r: "run ops (VtIo_ctor m0) w0 = Some (hrs, this', w')"
      and n: "\<forall>k<length ops. is_Initialize (ops ! k) \<longrightarrow> FAILED (hrs ! k)"
  proof -
    from run_inv [OF inv_ctor, of ops m0 w0] r
    have "IsUsingVt this' \<longleftrightarrow> IsUsingVt (VtIo_ctor m0) \<or>
        (\<exists>k<length ops. is_Initialize (ops ! k) \<and> SUCCEEDED (hrs ! k))"
      by auto
    with n have "\<not> IsUsingVt this'"
      by (auto simp: SUCCEEDED_iff_not_FAILED IsUsingVt_def VtIo_ctor_def)
    then show ?thesis by (rule StartIfNeeded_idle)
  qed
  from a b show ?thesis by (simp add: HRESULT_consts)
qed

theorem StartIfNeeded_unconfigured_witness:
  "\<not> IsUsingVt (VtIo_ctor INVALID) \<and>
   StartIfNeeded pipes_env (VtIo_ctor INVALID) quiet_world =
     Some (S_FALSE, VtIo_ctor INVALID, quiet_world) \<and>
   StartIfNeeded pipes_env
     \<lparr>usingVt = False, IoMode = XTERM, pVtInputThread = Some (VtInputThread 4),
       pVtRenderEngine = None\<rparr>
     \<lparr>open_handles = [4],
       trace = [Call_CreateFileW (L ''in'') GENERIC_READ, Call_CreateFileW (L ''out'') GENERIC_WRITE,
               Call_new_VtInputThread 4, Call_new_RenderEngine (XtermEngine 8 [0, 0x00FFFFFF] 2),
               Call_CloseHandle 8]\<rparr> =
   Some (S_FALSE,
     \<lparr>usingVt = False, IoMode = XTERM, pVtInputThread = Some (VtInputThread 4),
       pVtRenderEngine = None\<rparr>,
     \<lparr>open_handles = [4],
       trace = [Call_CreateFileW (L ''in'') GENERIC_READ, Call_CreateFileW (L ''out'') GENERIC_WRITE,
               Call_new_VtInputThread 4, Call_new_RenderEngine (XtermEngine 8 [0, 0x00FFFFFF] 2),
               Call_CloseHandle 8]\<rparr>)"
proof -
  have f: "\<not> IsUsingVt (VtIo_ctor INVALID)" by (simp add: IsUsingVt_def fresh_simps)
  have n: "\<forall>k<length [Op_StartIfNeeded pipes_env,
        Op_Initialize engine_fails_env two_colours (L ''in'') (L ''out'') (L ''xterm'')].
      is_Initialize ([Op_StartIfNeeded pipes_env,
        Op_Initialize engine_fails_env two_colours (L ''in'') (L ''out'') (L ''xterm'')] ! k) \<longrightarrow>
      FAILED ([S_FALSE, E_OUTOFMEMORY] ! k)"
    by (simp add: less_Suc_eq_0_disj HRESULT_consts)
  note a = StartIfNeeded_unconfigured [THEN conjunct1, rule_format, OF f, of pipes_env quiet_world]
  note b = StartIfNeeded_unconfigured [THEN conjunct2, THEN conjunct1, rule_format,
      OF conjI [OF history_failed n], of pipes_env]
  from f a b show ?thesis by simp
qed

text \<open>
  C6. On an instance reached from a fresh one on which \<open>IsUsingVt\<close> holds, both objects exist.
  If \<open>AddRenderEngine\<close> completes, \<open>StartIfNeeded\<close> returns \<open>S_OK\<close> having made exactly two
  calls, \<open>AddRenderEngine\<close> on the engine and then \<open>Start\<close> on the input thread. If
  \<open>AddRenderEngine\<close> throws, \<open>StartIfNeeded\<close> returns the failure code of the exception having
  made that one call only: \<open>Start\<close> is not called.
\<close>

theorem StartIfNeeded_register_then_start:
  assumes "run ops (VtIo_ctor m0) w0 = Some (hrs, this, w)" and "IsUsingVt this"
  shows "\<exists>t e. pVtInputThread this = Some t \<and> pVtRenderEngine this = Some e \<and>
     (case AddRenderEngine_throws env (Some e) of
        None \<Rightarrow>
          StartIfNeeded env this w =
            Some (S_OK, this,
                  w\<lparr>trace := trace w @ [Call_AddRenderEngine (Some e), Call_Start t]\<rparr>)
      | Some x \<Rightarrow>
          StartIfNeeded env this w =
            Some (ResultFromCaughtException x, this,
                  w\<lparr>trace := trace w @ [Call_AddRenderEngine (Some e)]\<rparr>) \<and>
          FAILED (ResultFromCaughtException x))"
proof -
  from run_inv [OF inv_ctor, of ops m0 w0] assms(1) have "VtIo_inv this" by auto
  with assms(2) obtain t e where
    te: "pVtInputThread this = Some t" "pVtRenderEngine this = Some e"
    by (auto simp: VtIo_inv_def IsUsingVt_def)
  from StartIfNeeded_configured [OF assms(2) te, of env w] te show ?thesis
    by (simp add: FAILED_ResultFromCaughtException split: option.splits)
qed

theorem StartIfNeeded_register_then_start_witness:
  "StartIfNeeded renderer_fails_env
     \<lparr>usingVt = True, IoMode = XTERM_256, pVtInputThread = Some (VtInputThread 4),
       pVtRenderEngine = Some (Xterm256Engine 8)\<rparr>
     \<lparr>open_handles = [8, 4],
       trace = [Call_CreateFileW (L ''in'') GENERIC_READ, Call_CreateFileW (L ''out'') GENERIC_WRITE,
                Call_new_VtInputThread 4, Call_new_RenderEngine (Xterm256Engine 8)]\<rparr> =
   Some (E_OUTOFMEMORY,
     \<lparr>usingVt = True, IoMode = XTERM_256, pVtInputThread = Some (VtInputThread 4),
       pVtRenderEngine = Some (Xterm256Engine 8)\<rparr>,
     \<lparr>open_handles = [8, 4],
       trace = [Call_CreateFileW (L ''in'') GENERIC_READ, Call_CreateFileW (L ''out'') GENERIC_WRITE,
                Call_new_VtInputThread 4, Call_new_RenderEngine (Xterm256Engine 8),
                Call_AddRenderEngine (Some (Xterm256Engine 8))]\<rparr>) \<and>
   FAILED E_OUTOFMEMORY \<and>
   StartIfNeeded pipes_env
     \<lparr>usingVt = True, IoMode = XTERM_256, pVtInputThread = Some (VtInputThread 4),
       pVtRenderEngine = Some (Xterm256Engine 8)\<rparr>
     \<lparr>open_handles = [8, 4],
       trace = [Call_CreateFileW (L ''in'') GENERIC_READ, Call_CreateFileW (L ''out'') GENERIC_WRITE,
                Call_new_VtInputThread 4, Call_new_RenderEngine (Xterm256Engine 8)]\<rparr> =
   Some (S_OK,
     \<lparr>usingVt = True, IoMode = XTERM_256, pVtInputThread = Some (VtInputThread 4),
       pVtRenderEngine = Some (Xterm256Engine 8)\<rparr>,
     \<lparr>open_handles = [8, 4],
       trace = [Call_CreateFileW (L ''in'') GENERIC_READ, Call_CreateFileW (L ''out'') GENERIC_WRITE,
                Call_new_VtInputThread 4, Call_new_RenderEngine (Xterm256Engine 8),
                Call_AddRenderEngine (Some (Xterm256Engine 8)), Call_Start (VtInputThread 4)]\<rparr>)"
proof -
  have u: "IsUsingVt \<lparr>usingVt = True, IoMode = XTERM_256, pVtInputThread = Some (VtInputThread 4),
       pVtRenderEngine = Some (Xterm256Engine 8)\<rparr>"
    by (simp add: IsUsingVt_def)
  have t: "AddRenderEngine_throws renderer_fails_env e = Some bad_alloc"
    "AddRenderEngine_throws pipes_env e = None" for e
    by (simp_all add: fixture_defs)
  have r: "ResultFromCaughtException bad_alloc = E_OUTOFMEMORY"
    by (simp add: ResultFromCaughtException_def)
  note a = StartIfNeeded_register_then_start [OF history_configured u, of renderer_fails_env]
  note b = StartIfNeeded_register_then_start [OF history_configured u, of pipes_env]
  from a b show ?thesis by (simp add: t r)
qed

text \<open>
  C7. The calls that one \<open>Initialize\<close> adds to the trace are, \<open>CloseHandle\<close>s apart, an initial
  part of: open the input pipe, open the output pipe, construct the input thread, construct
  the engine of the resolved mode; it stops at the first step that fails and returns that
  step's failure code. With a token that is not recognised it returns \<open>E_INVALIDARG\<close> and
  leaves the world untouched, no pipe being opened; when the input pipe does not open, the
  only call is that open.
\<close>

theorem Initialize_order:
  assumes "CreateFileW_result env InPipeName GENERIC_READ = (hIn, errIn)"
    and "CreateFileW_result env OutPipeName GENERIC_WRITE = (hOut, errOut)"
    and "Initialize env gci InPipeName OutPipeName VtMode this w = (hr, this', w')"
  shows "\<exists>new. trace w' = trace w @ new \<and>
     (if VtMode \<notin> {L '''', L ''xterm-256color'', L ''xterm'', L ''win-telnet''}
      then hr = E_INVALIDARG \<and> new = [] \<and> w' = w
      else if hIn = INVALID_HANDLE_VALUE
      then hr = GetLastErrorFailHr errIn \<and> new = [Call_CreateFileW InPipeName GENERIC_READ]
      else if hOut = INVALID_HANDLE_VALUE
      then hr = GetLastErrorFailHr errOut \<and>
           steps new = [Call_CreateFileW InPipeName GENERIC_READ,
                        Call_CreateFileW OutPipeName GENERIC_WRITE]
      else (case VtInputThread_throws env hIn of
              Some x \<Rightarrow>
                hr = ResultFromCaughtException x \<and>
                steps new = [Call_CreateFileW InPipeName GENERIC_READ,
                             Call_CreateFileW OutPipeName GENERIC_WRITE,
                             Call_new_VtInputThread hIn]
            | None \<Rightarrow>
                (\<exists>e. EngineFactory_spec (snd (ParseIoMode VtMode)) hOut (GetColorTable gci)
                        (word_of_nat (GetColorTableSize gci)) = Some e \<and>
                     steps new = [Call_CreateFileW InPipeName GENERIC_READ,
                                  Call_CreateFileW OutPipeName GENERIC_WRITE,
                                  Call_new_VtInputThread hIn, Call_new_RenderEngine e] \<and>
                     hr = (case RenderEngine_throws env e of
                             Some x \<Rightarrow> ResultFromCaughtException x
                           | None \<Rightarrow> S_OK))))"
  using assms
proof (cases rule: Initialize_cases)
  case at_parse
  from at_parse(1) have u: "VtMode \<notin> {L '''', L ''xterm-256color'', L ''xterm'', L ''win-telnet''}"
    by (simp only: ParseIoMode_invalid_iff)
  show ?thesis unfolding if_P [OF u] using at_parse by simp
next
  case at_input
  then have "ParseIoMode VtMode \<noteq> (E_INVALIDARG, INVALID)" by (auto simp: HRESULT_consts)
  then have u: "\<not> VtMode \<notin> {L '''', L ''xterm-256color'', L ''xterm'', L ''win-telnet''}"
    by (simp only: ParseIoMode_invalid_iff not_False_eq_True)
  show ?thesis unfolding if_not_P [OF u] using at_input by simp
next
  case at_output
  then have "ParseIoMode VtMode \<noteq> (E_INVALIDARG, INVALID)" by (auto simp: HRESULT_consts)
  then have u: "\<not> VtMode \<notin> {L '''', L ''xterm-256color'', L ''xterm'', L ''win-telnet''}"
    by (simp only: ParseIoMode_invalid_iff not_False_eq_True)
  show ?thesis unfolding if_not_P [OF u] using at_output by simp
next
  case (at_thread x)
  then have "ParseIoMode VtMode \<noteq> (E_INVALIDARG, INVALID)" by (auto simp: HRESULT_consts)
  then have u: "\<not> VtMode \<notin> {L '''', L ''xterm-256color'', L ''xterm'', L ''win-telnet''}"
    by (simp only: ParseIoMode_invalid_iff not_False_eq_True)
  show ?thesis unfolding if_not_P [OF u] using at_thread by simp
next
  case (at_engine e x cs)
  then have "ParseIoMode VtMode \<noteq> (E_INVALIDARG, INVALID)" by (auto simp: HRESULT_consts)
  then have u: "\<not> VtMode \<notin> {L '''', L ''xterm-256color'', L ''xterm'', L ''win-telnet''}"
    by (simp only: ParseIoMode_invalid_iff not_False_eq_True)
  show ?thesis unfolding if_not_P [OF u] using at_engine by simp
next
  case (at_ok e cs ds)
  then have "ParseIoMode VtMode \<noteq> (E_INVALIDARG, INVALID)" by (auto simp: HRESULT_consts)
  then have u: "\<not> VtMode \<notin> {L '''', L ''xterm-256color'', L ''xterm'', L ''win-telnet''}"
    by (simp only: ParseIoMode_invalid_iff not_False_eq_True)
  show ?thesis unfolding if_not_P [OF u] using at_ok by simp
qed

theorem Initialize_order_witness:
  "L ''bogus'' \<notin> {L '''', L ''xterm-256color'', L ''xterm'', L ''win-telnet''} \<and>
   Initialize pipes_env two_colours (L ''in'') (L ''out'') (L ''bogus'')
     \<lparr>usingVt = False, IoMode = XTERM, pVtInputThread = None, pVtRenderEngine = None\<rparr>
     quiet_world =
   (E_INVALIDARG,
    \<lparr>usingVt = False, IoMode = INVALID, pVtInputThread = None, pVtRenderEngine = None\<rparr>,
    quiet_world) \<and>
   CreateFileW_result pipes_env (L ''nowhere'') GENERIC_READ = (INVALID_HANDLE_VALUE, 2) \<and>
   trace (snd (snd (Initialize pipes_env two_colours (L ''nowhere'') (L ''out'') (L '''')
     (VtIo_ctor INVALID) quiet_world))) =
   trace quiet_world @ [Call_CreateFileW (L ''nowhere'') GENERIC_READ]"
proof -
  have ne: "L ''bogus'' \<notin> {L '''', L ''xterm-256color'', L ''xterm'', L ''win-telnet''}"
    "L '''' \<in> {L '''', L ''xterm-256color'', L ''xterm'', L ''win-telnet''}"
    by (simp_all add: L_def)
  note a = Initialize_order [OF pipes_open(1) pipes_open(2) run_bogus]
  note b = Initialize_order [OF pipes_open(3) pipes_open(2) run_missing_in]
  from a b ne show ?thesis
    by (simp add: run_bogus run_missing_in pipes_open fresh_simps)
qed



text \<open>
  C9. No call of \<open>Initialize\<close> leaves by the \<open>default\<close> branch of the switch: a successful
  \<open>ParseIoMode\<close> yields one of \<open>XTERM_256\<close>, \<open>XTERM\<close> and \<open>WIN_TELNET\<close>.
\<close>

theorem Initialize_default_unreachable:
  "fst (Initialize_ret env gci InPipeName OutPipeName VtMode this w) \<noteq> Ret_default \<and>
   (SUCCEEDED (fst (ParseIoMode VtMode)) \<longrightarrow>
      snd (ParseIoMode VtMode) \<in> {XTERM_256, XTERM, WIN_TELNET})"
proof
  obtain hIn errIn where i: "CreateFileW_result env InPipeName GENERIC_READ = (hIn, errIn)"
    by (cases "CreateFileW_result env InPipeName GENERIC_READ")
  obtain hOut errOut where ou: "CreateFileW_result env OutPipeName GENERIC_WRITE = (hOut, errOut)"
    by (cases "CreateFileW_result env OutPipeName GENERIC_WRITE")
  from i ou show "fst (Initialize_ret env gci InPipeName OutPipeName VtMode this w) \<noteq> Ret_default"
  proof (cases rule: Initialize_ret_cases [where VtMode = VtMode and gci = gci])
    case at_parse
    then show ?thesis by (simp add: path_parse)
  next
    case at_input
    then show ?thesis using i by (simp add: path_input)
  next
    case at_output
    then show ?thesis using i ou by (simp add: path_output)
  next
    case (at_thread x)
    then show ?thesis using i ou by (simp add: path_thread)
  next
    case (at_engine e x)
    then show ?thesis using i ou by (simp add: path_engine)
  next
    case (at_ok e)
    then show ?thesis using i ou by (simp add: path_ok)
  qed
  show "SUCCEEDED (fst (ParseIoMode VtMode)) \<longrightarrow>
      snd (ParseIoMode VtMode) \<in> {XTERM_256, XTERM, WIN_TELNET}"
    using ParseIoMode_cases [of VtMode]
    by (auto simp: SUCCEEDED_iff_not_FAILED HRESULT_consts)
qed

theorem Initialize_default_unreachable_witness:
  "SUCCEEDED (fst (ParseIoMode (L ''win-telnet''))) \<and>
   snd (ParseIoMode (L ''win-telnet'')) = WIN_TELNET \<and>
   fst (Initialize_ret pipes_env two_colours (L ''in'') (L ''out'') (L ''win-telnet'')
          (VtIo_ctor INVALID) quiet_world) \<noteq> Ret_default"
proof -
  have p: "ParseIoMode (L ''win-telnet'') = (S_OK, WIN_TELNET)"
    by (simp add: ParseIoMode_def XTERM_STRING_def XTERM_256_STRING_def WIN_TELNET_STRING_def
        L_def)
  from Initialize_default_unreachable [of pipes_env two_colours "L ''in''" "L ''out''"
      "L ''win-telnet''" "VtIo_ctor INVALID" quiet_world]
  show ?thesis by (simp add: p HRESULT_consts)
qed

text \<open>
  C10. A failed \<open>Initialize\<close> leaves in \<open>_IoMode\<close> what \<open>ParseIoMode\<close> wrote there: \<open>INVALID\<close>
  when the token is not recognised (the call then returns \<open>E_INVALIDARG\<close>), the resolved
  dialect when it is. So the field changes whenever it held something else, while
  \<open>_usingVt\<close> keeps its value.
\<close>

theorem Initialize_failure_overwrites_mode:
  assumes "Initialize env gci InPipeName OutPipeName VtMode this w = (hr, this', w')"
    and "FAILED hr"
  shows "IoMode this' = snd (ParseIoMode VtMode) \<and>
         (VtMode \<notin> {L '''', L ''xterm-256color'', L ''xterm'', L ''win-telnet''} \<longrightarrow>
            IoMode this' = INVALID \<and> hr = E_INVALIDARG) \<and>
         (VtMode \<in> {L '''', L ''xterm-256color'', L ''xterm'', L ''win-telnet''} \<longrightarrow>
            IoMode this' \<in> {XTERM_256, XTERM, WIN_TELNET}) \<and>
         (IoMode this \<noteq> snd (ParseIoMode VtMode) \<longrightarrow> IoMode this' \<noteq> IoMode this) \<and>
         IsUsingVt this' = IsUsingVt this"
proof -
  obtain hIn errIn where i: "CreateFileW_result env InPipeName GENERIC_READ = (hIn, errIn)"
    by (cases "CreateFileW_result env InPipeName GENERIC_READ")
  obtain hOut errOut where ou: "CreateFileW_result env OutPipeName GENERIC_WRITE = (hOut, errOut)"
    by (cases "CreateFileW_result env OutPipeName GENERIC_WRITE")
  have m: "IoMode this' = snd (ParseIoMode VtMode) \<and> IsUsingVt this' = IsUsingVt this \<and>
    (ParseIoMode VtMode = (E_INVALIDARG, INVALID) \<longrightarrow> hr = E_INVALIDARG)"
    using i ou assms(1)
  proof (cases rule: Initialize_cases)
    case (at_ok e cs ds)
    with assms(2) show ?thesis by (simp add: HRESULT_consts)
  qed (auto simp: IsUsingVt_def HRESULT_consts)
  with ParseIoMode_cases [of VtMode] ParseIoMode_invalid_iff [of VtMode]
  show ?thesis by auto
qed

theorem Initialize_failure_overwrites_mode_witness:
  "FAILED E_INVALIDARG \<and> L ''bogus'' \<notin> {L '''', L ''xterm-256color'', L ''xterm'', L ''win-telnet''} \<and>
   IoMode (fst (snd (Initialize pipes_env two_colours (L ''in'') (L ''out'') (L ''bogus'')
     \<lparr>usingVt = False, IoMode = XTERM, pVtInputThread = None, pVtRenderEngine = None\<rparr>
     quiet_world))) = INVALID \<and>
   FAILED E_OUTOFMEMORY \<and> L ''xterm'' \<in> {L '''', L ''xterm-256color'', L ''xterm'', L ''win-telnet''} \<and>
   IoMode (VtIo_ctor INVALID) \<noteq> XTERM \<and>
   IoMode (fst (snd (Initialize engine_fails_env two_colours (L ''in'') (L ''out'') (L ''xterm'')
     (VtIo_ctor INVALID) quiet_world))) = XTERM"
proof -
  have ne: "L ''bogus'' \<notin> {L '''', L ''xterm-256color'', L ''xterm'', L ''win-telnet''}"
    by (simp add: L_def)
  note a = Initialize_failure_overwrites_mode [OF run_bogus HRESULT_consts(4)]
  note b = Initialize_failure_overwrites_mode [OF run_engine_fails HRESULT_consts(5)]
  from a b ne show ?thesis
    by (simp add: parse_examples fresh_simps HRESULT_consts run_bogus run_engine_fails)
qed

end
